theory Spec2Isabelle
  imports Main "HOL-Library.Word" "HOL-Library.Multiset" "HOL-Library.AList"
begin

section \<open>Data model of the printer manager\<close>

text \<open>
  The embedding follows \<^verbatim>\<open>manager/printermanager.go\<close>. The packages \<^verbatim>\<open>lib\<close>,
  \<^verbatim>\<open>gcp\<close> and \<^verbatim>\<open>cups\<close> are collaborators: every call into them is recorded as
  an event, and what the call returns is supplied by an environment record. Go strings
  are byte sequences, so \<^typ>\<open>string\<close> (a list of \<^typ>\<open>char\<close>) with \<^const>\<open>length\<close>
  counting bytes is the model of \<^verbatim>\<open>string\<close> and \<^verbatim>\<open>len\<close>. A Go \<^verbatim>\<open>error\<close> is
  represented by its message; \<^verbatim>\<open>uint\<close> counters are 64-bit words, \<^verbatim>\<open>uint32\<close> values
  32-bit words and \<^verbatim>\<open>time.Duration\<close> a 64-bit word read as a signed number.
\<close>

type_synonym error = string

type_synonym options = "(string \<times> string) list"

text \<open>A \<^verbatim>\<open>*lib.Semaphore\<close>: the nil pointer, or a semaphore made by \<^verbatim>\<open>lib.NewSemaphore(size)\<close>.\<close>

datatype Semaphore = NilSemaphore | NewSemaphore nat

text \<open>The fields of \<^verbatim>\<open>lib.Printer\<close> that the manager reads or writes.\<close>

record Printer =
  Name :: string
  GCPID :: string
  XMPPPingInterval :: "64 word"
  CUPSJobSemaphore :: Semaphore

text \<open>The zero value \<^verbatim>\<open>lib.Printer{}\<close>.\<close>

definition Printer_zero :: Printer where
  "Printer_zero = \<lparr>Name = [], GCPID = [], XMPPPingInterval = 0, CUPSJobSemaphore = NilSemaphore\<rparr>"

record Job =
  GCPJobID :: string
  GCPPrinterID :: string
  FileURL :: string
  OwnerID :: string
  Title :: string

text \<open>
  \<^verbatim>\<open>lib.GCPJobState\<close> and \<^verbatim>\<open>lib.GCPJobStateCause\<close> are declared in \<^verbatim>\<open>lib\<close>. The manager
  names three states and three causes; every other value of the two types is
  \<open>GCPJobState_other n\<close>, respectively \<open>GCPJobStateCause_value n\<close> (the literal
  \<^verbatim>\<open>100\<close> returned by a successful \<^verbatim>\<open>assembleJob\<close> is such a value).
\<close>

datatype GCPJobState = GCPJobInProgress | GCPJobDone | GCPJobAborted | GCPJobState_other nat

datatype GCPJobStateCause =
  GCPJobInvalidTicket | GCPJobPrintFailure | GCPJobOther | GCPJobStateCause_value nat

text \<open>
  What the manager takes from the declarations of \<^verbatim>\<open>lib\<close> when it follows a job: the
  zero values of \<^verbatim>\<open>lib.CUPSJobState\<close> (type \<open>'c\<close>) and \<^verbatim>\<open>lib.GCPJobState\<close>, which
  initialise the loop variables of \<^verbatim>\<open>followJob\<close>, and the method
  \<^verbatim>\<open>CUPSJobState.GCPJobState()\<close>. They are parameters of the model.
\<close>

record 'c lib_decls =
  CUPSJobState_zero :: 'c
  GCPJobState_zero :: GCPJobState
  GCPJobState_of :: "'c \<Rightarrow> GCPJobState \<times> GCPJobStateCause"

text \<open>
  The state of a \<^verbatim>\<open>PrinterManager\<close>. The printer table
  \<^verbatim>\<open>gcpPrintersByGCPID\<close> is an association list from GCP ID to printer; a Go
  \<^verbatim>\<open>map[string]bool\<close> is a partial map whose missing keys read as \<^verbatim>\<open>false\<close>.
\<close>

record PrinterManager =
  gcpPrintersByGCPID :: "(string \<times> Printer) list"
  jobsDone :: "64 word"
  jobsError :: "64 word"
  jobsInFlight :: "string \<rightharpoonup> bool"
  cupsQueueSize :: nat
  jobFullUsername :: bool
  ignoreRawPrinters :: bool
  shareScope :: string

subsection \<open>The printer table\<close>

text \<open>
  Modelled from the spec: \<^verbatim>\<open>lib.ConcurrentPrinterMap\<close> is not part of the manager's
  source file. The spec (4.2) describes it as a mapping from cloud ID to printer with
  \<^verbatim>\<open>Get(cloudID)\<close>, \<^verbatim>\<open>GetAll()\<close> and \<^verbatim>\<open>Refresh(printers)\<close>, the latter replacing the
  entire mapping, indexed by cloud ID.
\<close>

definition Refresh :: "Printer list \<Rightarrow> (string \<times> Printer) list" where
  "Refresh printers = fold (\<lambda>p m. AList.update (GCPID p) p m) printers []"


definition Get :: "(string \<times> Printer) list \<Rightarrow> string \<Rightarrow> Printer option" where
  "Get m gcpID = map_of m gcpID"

definition GetAll :: "(string \<times> Printer) list \<Rightarrow> Printer list" where
  "GetAll m = map snd m"

section \<open>The job processor\<close>

subsection \<open>Events and environment\<close>

text \<open>
  The calls a job processor makes, in the order it makes them. A call whose result
  matters later carries the result.
\<close>

datatype job_event =
    Ticket_call string
  | CreateTempFile_call "error + string"
  | Acquire_call Semaphore
  | Release_call Semaphore
  | Download_call string string
  | Remove_call string
  | Close_call string
  | Print_call string string string string options
  | GetJobState_call "32 word"
  | Control_call string GCPJobState GCPJobStateCause "32 word"

text \<open>
  What the collaborators answer to one job processor: the ticket, the temp file, the
  download, the submission, and the successive answers of \<^verbatim>\<open>cups.GetJobState\<close>, one per
  tick of the follow loop. The list of polls is finite: a loop that has consumed all of
  it without leaving is still polling.
\<close>

record 'c job_env =
  Ticket_result :: "error + options"
  CreateTempFile_result :: "error + string"
  Download_result :: "error option"
  Print_result :: "error + 32 word"
  GetJobState_results :: "(error + ('c \<times> 32 word)) list"
  downloadSemaphore :: Semaphore

text \<open>How a call of a function ends: it returns, it panics, or it is still in its loop.\<close>

datatype outcome = Returned | Panicked | Polling

subsection \<open>Counters and the in-flight set\<close>

definition incrementJobsProcessed :: "bool \<Rightarrow> PrinterManager \<Rightarrow> PrinterManager" where
  "incrementJobsProcessed success pm =
     (if success then pm\<lparr>jobsDone := jobsDone pm + 1\<rparr>
      else pm\<lparr>jobsError := jobsError pm + 1\<rparr>)"

text \<open>Reading \<^verbatim>\<open>pm.jobsInFlight[gcpJobID]\<close>: a missing key reads as \<^verbatim>\<open>false\<close>.\<close>

definition inFlight :: "PrinterManager \<Rightarrow> string \<Rightarrow> bool" where
  "inFlight pm gcpJobID = (case jobsInFlight pm gcpJobID of None \<Rightarrow> False | Some b \<Rightarrow> b)"

definition addInFlightJob :: "string \<Rightarrow> PrinterManager \<Rightarrow> bool \<times> PrinterManager" where
  "addInFlightJob gcpJobID pm =
     (if inFlight pm gcpJobID then (False, pm)
      else (True, pm\<lparr>jobsInFlight := (jobsInFlight pm)(gcpJobID \<mapsto> True)\<rparr>))"

definition deleteInFlightJob :: "string \<Rightarrow> PrinterManager \<Rightarrow> PrinterManager" where
  "deleteInFlightJob gcpID pm = pm\<lparr>jobsInFlight := (jobsInFlight pm)(gcpID := None)\<rparr>"

subsection \<open>assembleJob\<close>

text \<open>
  The result of \<^verbatim>\<open>assembleJob\<close> is the five-tuple of the source: printer, options, the
  PDF file (\<open>None\<close> is the nil \<^verbatim>\<open>*os.File\<close>, \<open>Some path\<close> a file of that name), message
  and cause. The messages are those of the \<^verbatim>\<open>fmt.Sprintf\<close> calls.
\<close>

type_synonym assembled = "Printer \<times> options \<times> string option \<times> string \<times> GCPJobStateCause"

definition assembleJob ::
  "('c, 'e) job_env_scheme \<Rightarrow> PrinterManager \<Rightarrow> Job \<Rightarrow> assembled \<times> job_event list" where
  "assembleJob env pm job =
     (case Get (gcpPrintersByGCPID pm) (GCPPrinterID job) of
        None \<Rightarrow>
          ((Printer_zero, [], None,
            ''Failed to find GCP printer '' @ GCPPrinterID job @ '' for job '' @ GCPJobID job,
            GCPJobOther), [])
      | Some printer \<Rightarrow>
          (case Ticket_result env of
             Inl err \<Rightarrow>
               ((Printer_zero, [], None,
                 ''Failed to get a ticket for job '' @ GCPJobID job @ '': '' @ err,
                 GCPJobInvalidTicket),
                [Ticket_call (GCPJobID job)])
           | Inr opts \<Rightarrow>
               (case CreateTempFile_result env of
                  Inl err \<Rightarrow>
                    ((Printer_zero, [], None,
                      ''Failed to create a temporary file for job '' @ GCPJobID job @ '': '' @ err,
                      GCPJobOther),
                     [Ticket_call (GCPJobID job), CreateTempFile_call (Inl err)])
                | Inr pdfFile \<Rightarrow>
                    (case Download_result env of
                       Some err \<Rightarrow>
                         ((Printer_zero, [], None,
                           ''Failed to download PDF for job '' @ GCPJobID job @ '': '' @ err,
                           GCPJobPrintFailure),
                          [Ticket_call (GCPJobID job), CreateTempFile_call (Inr pdfFile),
                           Acquire_call (downloadSemaphore env),
                           Download_call pdfFile (FileURL job),
                           Release_call (downloadSemaphore env),
                           Remove_call pdfFile])
                     | None \<Rightarrow>
                         ((printer, opts, Some pdfFile, [], GCPJobStateCause_value 100),
                          [Ticket_call (GCPJobID job), CreateTempFile_call (Inr pdfFile),
                           Acquire_call (downloadSemaphore env),
                           Download_call pdfFile (FileURL job),
                           Release_call (downloadSemaphore env),
                           Close_call pdfFile])))))"

subsection \<open>followJob\<close>

text \<open>
  One iteration of the loop of \<^verbatim>\<open>followJob\<close>, on the loop variables
  \<open>(cupsState, gcpState, pages)\<close> and the answer of \<^verbatim>\<open>cups.GetJobState\<close>. The third
  component of the result says how the iteration ends: \<open>None\<close> goes on to the next tick,
  \<open>Some success\<close> calls \<^verbatim>\<open>incrementJobsProcessed(success)\<close> and leaves the loop.
\<close>

type_synonym 'c follow_vars = "'c \<times> GCPJobState \<times> 32 word"

definition followJob_poll ::
  "('c, 'l) lib_decls_scheme \<Rightarrow> Job \<Rightarrow> 32 word \<Rightarrow> 'c follow_vars \<Rightarrow> error + ('c \<times> 32 word) \<Rightarrow>
     'c follow_vars \<times> job_event list \<times> bool option" where
  "followJob_poll L job cupsJobID vars poll =
     (case vars of (cupsState, gcpState, pages) \<Rightarrow>
        (case poll of
           Inl err \<Rightarrow>
             (vars,
              [GetJobState_call cupsJobID,
               Control_call (GCPJobID job) GCPJobAborted GCPJobOther pages],
              Some False)
         | Inr (latestCUPSState, latestPages) \<Rightarrow>
             (let (vars', controls) =
                    (if latestCUPSState \<noteq> cupsState \<or> latestPages \<noteq> pages
                     then ((latestCUPSState, fst (GCPJobState_of L latestCUPSState), latestPages),
                           [Control_call (GCPJobID job) (fst (GCPJobState_of L latestCUPSState))
                              (snd (GCPJobState_of L latestCUPSState)) latestPages])
                     else (vars, []))
              in (vars', GetJobState_call cupsJobID # controls,
                  if fst (snd vars') \<noteq> GCPJobInProgress
                  then Some (fst (snd vars') = GCPJobDone) else None))))"

fun followJob_loop ::
  "('c, 'l) lib_decls_scheme \<Rightarrow> Job \<Rightarrow> 32 word \<Rightarrow> 'c follow_vars \<Rightarrow>
     (error + ('c \<times> 32 word)) list \<Rightarrow> PrinterManager \<Rightarrow>
     PrinterManager \<times> job_event list \<times> outcome" where
  "followJob_loop L job cupsJobID vars [] pm = (pm, [], Polling)"
| "followJob_loop L job cupsJobID vars (poll # polls) pm =
     (case followJob_poll L job cupsJobID vars poll of
        (vars', evs, Some success) \<Rightarrow> (incrementJobsProcessed success pm, evs, Returned)
      | (vars', evs, None) \<Rightarrow>
          (case followJob_loop L job cupsJobID vars' polls pm of
             (pm', evs', out) \<Rightarrow> (pm', evs @ evs', out)))"

text \<open>The loop variables start at the zero values of their types.\<close>

definition followJob ::
  "('c, 'l) lib_decls_scheme \<Rightarrow> ('c, 'e) job_env_scheme \<Rightarrow> PrinterManager \<Rightarrow> Job \<Rightarrow> 32 word \<Rightarrow>
     PrinterManager \<times> job_event list \<times> outcome" where
  "followJob L env pm job cupsJobID =
     followJob_loop L job cupsJobID (CUPSJobState_zero L, GCPJobState_zero L, 0)
       (GetJobState_results env) pm"

subsection \<open>processJob\<close>

text \<open>
  \<^verbatim>\<open>strings.Split(s, sep)\<close> for a separator of one byte: the pieces of \<open>s\<close> between the
  occurrences of the separator.
\<close>

fun strings_Split :: "string \<Rightarrow> char \<Rightarrow> string list" where
  "strings_Split [] sep = [[]]"
| "strings_Split (c # s) sep =
     (if c = sep then [] # strings_Split s sep
      else (case strings_Split s sep of
              [] \<Rightarrow> [[c]]
            | piece # pieces \<Rightarrow> (c # piece) # pieces))"

text \<open>
  A deferred call runs when the function leaves, by return or by panic, and not while
  the function is still in its loop.
\<close>

definition deferred ::
  "(PrinterManager \<Rightarrow> PrinterManager) \<Rightarrow> job_event list \<Rightarrow>
     PrinterManager \<times> job_event list \<times> outcome \<Rightarrow> PrinterManager \<times> job_event list \<times> outcome" where
  "deferred f calls r =
     (case r of (pm, evs, out) \<Rightarrow>
        if out = Polling then (pm, evs, out) else (f pm, evs @ calls, out))"

text \<open>Lines 430 to 433: the owner handed to the spooler; indexing an empty slice panics.\<close>

definition processJob_ownerID :: "PrinterManager \<Rightarrow> Job \<Rightarrow> string option" where
  "processJob_ownerID pm job =
     (if \<not> jobFullUsername pm
      then (case strings_Split (OwnerID job) CHR ''@'' of
              [] \<Rightarrow> None
            | piece # pieces \<Rightarrow> Some piece)
      else Some (OwnerID job))"

text \<open>Lines 438 to 441: the title handed to the spooler.\<close>

definition processJob_jobTitle :: "Job \<Rightarrow> string" where
  "processJob_jobTitle job =
     (let jobTitle = ''gcp:'' @ GCPJobID job @ '' '' @ Title job
      in if length jobTitle > 255 then take 255 jobTitle else jobTitle)"

text \<open>Lines 428 to 456, after the PDF file has been assembled.\<close>

definition processJob_submit ::
  "('c, 'l) lib_decls_scheme \<Rightarrow> ('c, 'e) job_env_scheme \<Rightarrow> PrinterManager \<Rightarrow> Job \<Rightarrow>
     Printer \<Rightarrow> options \<Rightarrow> string \<Rightarrow> PrinterManager \<times> job_event list \<times> outcome" where
  "processJob_submit L env pm job printer opts pdfFile =
     deferred id [Remove_call pdfFile]
       (case processJob_ownerID pm job of
          None \<Rightarrow> (pm, [], Panicked)
        | Some ownerID \<Rightarrow>
            deferred id [Release_call (CUPSJobSemaphore printer)]
              (case Print_result env of
                 Inl err \<Rightarrow>
                   (incrementJobsProcessed False pm,
                    [Acquire_call (CUPSJobSemaphore printer),
                     Print_call (Name printer) pdfFile (processJob_jobTitle job) ownerID opts,
                     Control_call (GCPJobID job) GCPJobAborted GCPJobPrintFailure 0],
                    Returned)
               | Inr cupsJobID \<Rightarrow>
                   (case followJob L env pm job cupsJobID of
                      (pm', evs, out) \<Rightarrow>
                        (pm',
                         [Acquire_call (CUPSJobSemaphore printer),
                          Print_call (Name printer) pdfFile (processJob_jobTitle job) ownerID opts]
                         @ evs,
                         out))))"

text \<open>Lines 417 to 427, then the rest: what \<^verbatim>\<open>processJob\<close> does once the job is in flight.\<close>

definition processJob_inFlight ::
  "('c, 'l) lib_decls_scheme \<Rightarrow> ('c, 'e) job_env_scheme \<Rightarrow> PrinterManager \<Rightarrow> Job \<Rightarrow>
     PrinterManager \<times> job_event list \<times> outcome" where
  "processJob_inFlight L env pm job =
     (case assembleJob env pm job of
        ((printer, opts, pdfFile, message, gcpJobStateCause), evs) \<Rightarrow>
          if message \<noteq> []
          then (incrementJobsProcessed False pm,
                evs @ [Control_call (GCPJobID job) GCPJobAborted gcpJobStateCause 0],
                Returned)
          else (case pdfFile of
                  None \<Rightarrow> (pm, evs, Panicked)
                | Some path \<Rightarrow>
                    (case processJob_submit L env pm job printer opts path of
                       (pm', evs', out) \<Rightarrow> (pm', evs @ evs', out))))"

definition processJob ::
  "('c, 'l) lib_decls_scheme \<Rightarrow> ('c, 'e) job_env_scheme \<Rightarrow> PrinterManager \<Rightarrow> Job \<Rightarrow>
     PrinterManager \<times> job_event list \<times> outcome" where
  "processJob L env pm job =
     (case addInFlightJob (GCPJobID job) pm of
        (False, pm') \<Rightarrow> (pm', [], Returned)
      | (True, pm') \<Rightarrow>
          deferred (deleteInFlightJob (GCPJobID job)) [] (processJob_inFlight L env pm' job))"

text \<open>
  The temp files that exist after a sequence of calls: \<^verbatim>\<open>cups.CreateTempFile\<close> makes
  the file it returns, \<^verbatim>\<open>os.Remove\<close> deletes the file it names.
\<close>

fun files_after :: "job_event list \<Rightarrow> string set \<Rightarrow> string set" where
  "files_after [] files = files"
| "files_after (CreateTempFile_call (Inr path) # evs) files = files_after evs (insert path files)"
| "files_after (Remove_call path # evs) files = files_after evs (files - {path})"
| "files_after (ev # evs) files = files_after evs files"

text \<open>Observations on a sequence of calls.\<close>

fun is_Control :: "job_event \<Rightarrow> bool" where
  "is_Control (Control_call gcpJobID state cause pages) = True"
| "is_Control ev = False"

fun is_Print :: "job_event \<Rightarrow> bool" where
  "is_Print (Print_call printer path title owner opts) = True"
| "is_Print ev = False"

subsection \<open>Job processors running side by side\<close>

text \<open>
  \<^verbatim>\<open>listenGCPJobs\<close> starts one goroutine \<^verbatim>\<open>pm.processJob(job)\<close> for every job it
  receives. A processor has received its job and not yet called \<^verbatim>\<open>addInFlightJob\<close>, or
  is between line 417 and its exit, or has left. The two functions that touch
  \<^verbatim>\<open>jobsInFlight\<close> hold \<^verbatim>\<open>jobsInFlightMutex\<close>, so each is one step; everything else
  that runs in between, in this processor or elsewhere in the manager, leaves
  \<^verbatim>\<open>jobsInFlight\<close> as it is.
\<close>

datatype processor = Received Job | Processing Job | Exited

inductive step ::
  "PrinterManager \<times> processor list \<Rightarrow> PrinterManager \<times> processor list \<Rightarrow> bool" where
  dispatch: "step (pm, ps) (pm, ps @ [Received job])"
| duplicate:
    "i < length ps \<Longrightarrow> ps ! i = Received job \<Longrightarrow>
     addInFlightJob (GCPJobID job) pm = (False, pm') \<Longrightarrow>
     step (pm, ps) (pm', ps[i := Exited])"
| enter:
    "i < length ps \<Longrightarrow> ps ! i = Received job \<Longrightarrow>
     addInFlightJob (GCPJobID job) pm = (True, pm') \<Longrightarrow>
     step (pm, ps) (pm', ps[i := Processing job])"
| work: "jobsInFlight pm' = jobsInFlight pm \<Longrightarrow> step (pm, ps) (pm', ps)"
| leave:
    "i < length ps \<Longrightarrow> ps ! i = Processing job \<Longrightarrow>
     step (pm, ps) (deleteInFlightJob (GCPJobID job) pm, ps[i := Exited])"

text \<open>\<^verbatim>\<open>NewPrinterManager\<close> starts with an empty in-flight set and no processor.\<close>

inductive reachable :: "PrinterManager \<times> processor list \<Rightarrow> bool" where
  initial: "jobsInFlight pm = Map.empty \<Longrightarrow> reachable (pm, [])"
| after: "reachable c \<Longrightarrow> step c c' \<Longrightarrow> reachable c'"

section \<open>Printer reconciliation\<close>

datatype Operation =
  RegisterPrinter | UpdatePrinter | DeletePrinter | NoChangeToPrinter | Operation_other nat

record PrinterDiff =
  Operation :: Operation
  Printer :: Printer

text \<open>
  The calls of one reconciliation round, the lines it logs at error and info level,
  and the values it sends on the result channel.
\<close>

datatype sync_event =
    GetPPD_call string
  | Register_call Printer string
  | CanShare_call
  | Share_call string string
  | Update_call PrinterDiff
  | RemoveCachedPPD_call string
  | Delete_call string
  | Errorf string
  | Infof string
  | Send Printer

text \<open>
  What the collaborators answer during one round. \<^verbatim>\<open>gcp.Register\<close> and \<^verbatim>\<open>gcp.Update\<close>
  receive a pointer, so their answer is the error together with the printer,
  respectively the diff, as the call leaves it. \<^verbatim>\<open>lib.DiffPrinters\<close> answers \<open>None\<close>
  for a nil slice.
\<close>

record sync_env =
  GetPrinters_result :: "error + Printer list"
  FilterRawPrinters :: "Printer list \<Rightarrow> Printer list \<times> Printer list"
  DiffPrinters :: "Printer list \<Rightarrow> Printer list \<Rightarrow> PrinterDiff list option"
  GetPPD :: "string \<Rightarrow> error + string"
  Register :: "Printer \<Rightarrow> string \<Rightarrow> error option \<times> Printer"
  CanShare :: bool
  Share :: "string \<Rightarrow> string \<Rightarrow> error option"
  Update :: "PrinterDiff \<Rightarrow> error option \<times> PrinterDiff"
  Delete :: "string \<Rightarrow> error option"

subsection \<open>applyDiff\<close>

definition applyDiff :: "sync_env \<Rightarrow> PrinterManager \<Rightarrow> PrinterDiff \<Rightarrow> sync_event list" where
  "applyDiff env pm diff =
     (case Operation diff of
        RegisterPrinter \<Rightarrow>
          (case GetPPD env (Name (Printer diff)) of
             Inl err \<Rightarrow>
               [GetPPD_call (Name (Printer diff)),
                Errorf (''Failed to call GetPPD() while registering printer ''
                          @ Name (Printer diff) @ '': '' @ err),
                Send Printer_zero]
           | Inr ppd \<Rightarrow>
               (case Register env (Printer diff) ppd of
                  (Some err, printer) \<Rightarrow>
                    [GetPPD_call (Name (Printer diff)), Register_call (Printer diff) ppd,
                     Errorf (''Failed to register printer '' @ Name printer @ '': '' @ err),
                     Send Printer_zero]
                | (None, printer) \<Rightarrow>
                    [GetPPD_call (Name (Printer diff)), Register_call (Printer diff) ppd,
                     Infof (''Registered '' @ Name printer), CanShare_call]
                    @ (if CanShare env
                       then [Share_call (GCPID printer) (shareScope pm),
                             (case Share env (GCPID printer) (shareScope pm) of
                                Some err \<Rightarrow>
                                  Errorf (''Failed to share printer '' @ Name printer @ '': '' @ err)
                              | None \<Rightarrow> Infof (''Shared '' @ Name printer))]
                       else [])
                    @ [Send (printer\<lparr>CUPSJobSemaphore := NewSemaphore (cupsQueueSize pm)\<rparr>)]))
      | UpdatePrinter \<Rightarrow>
          (case Update env diff of
             (Some err, diff') \<Rightarrow>
               [Update_call diff, Errorf (''Failed to update a printer: '' @ err),
                Send (Printer diff')]
           | (None, diff') \<Rightarrow>
               [Update_call diff, Infof (''Updated '' @ Name (Printer diff')),
                Send (Printer diff')])
      | DeletePrinter \<Rightarrow>
          (case Delete env (GCPID (Printer diff)) of
             Some err \<Rightarrow>
               [RemoveCachedPPD_call (Name (Printer diff)), Delete_call (GCPID (Printer diff)),
                Errorf (''Failed to delete a printer '' @ GCPID (Printer diff) @ '': '' @ err),
                Send Printer_zero]
           | None \<Rightarrow>
               [RemoveCachedPPD_call (Name (Printer diff)), Delete_call (GCPID (Printer diff)),
                Infof (''Deleted '' @ Name (Printer diff)),
                Send Printer_zero])
      | NoChangeToPrinter \<Rightarrow>
          [Infof (''No change to '' @ Name (Printer diff)), Send (Printer diff)]
      | Operation_other n \<Rightarrow> [Send Printer_zero])"

text \<open>The values a worker sends on the channel, and whether it logs an error.\<close>

fun sent :: "sync_event list \<Rightarrow> Printer list" where
  "sent [] = []"
| "sent (Send p # evs) = p # sent evs"
| "sent (ev # evs) = sent evs"

fun is_Errorf :: "sync_event \<Rightarrow> bool" where
  "is_Errorf (Errorf message) = True"
| "is_Errorf ev = False"

subsection \<open>syncPrinters\<close>

text \<open>Lines 169 to 181: the diffs of the round, an error, or \<open>None\<close> for the nil slice.\<close>

definition syncPrinters_diffs ::
  "sync_env \<Rightarrow> PrinterManager \<Rightarrow> error + PrinterDiff list option" where
  "syncPrinters_diffs env pm =
     (case GetPrinters_result env of
        Inl err \<Rightarrow> Inl (''Sync failed while calling GetPrinters(): '' @ err)
      | Inr cupsPrinters \<Rightarrow>
          Inr (DiffPrinters env
                 (if ignoreRawPrinters pm then fst (FilterRawPrinters env cupsPrinters)
                  else cupsPrinters)
                 (GetAll (gcpPrintersByGCPID pm))))"

text \<open>
  One goroutine per diff runs \<^verbatim>\<open>applyDiff\<close>; the values arrive on the channel in an
  order \<open>arrival\<close> that the scheduler decides, which is an arrangement of all the values
  the workers send.
\<close>

definition arrival_of :: "sync_env \<Rightarrow> PrinterManager \<Rightarrow> PrinterDiff list \<Rightarrow> Printer list \<Rightarrow> bool" where
  "arrival_of env pm diffs arrival \<longleftrightarrow>
     mset arrival = mset (concat (map (\<lambda>diff. sent (applyDiff env pm diff)) diffs))"

text \<open>
  How a round ends: with the error of line 171, with the nil of line 180, waiting
  for ever on the channel for a value that no worker sends, or with \<^verbatim>\<open>Refresh\<close> called
  on \<^verbatim>\<open>currentPrinters\<close>.
\<close>

datatype sync_result = Sync_failed error | In_sync | Blocked | Refreshed "Printer list"

definition syncPrinters ::
  "sync_env \<Rightarrow> Printer list \<Rightarrow> PrinterManager \<Rightarrow> sync_result \<times> PrinterManager" where
  "syncPrinters env arrival pm =
     (case syncPrinters_diffs env pm of
        Inl err \<Rightarrow> (Sync_failed err, pm)
      | Inr None \<Rightarrow> (In_sync, pm)
      | Inr (Some diffs) \<Rightarrow>
          if length arrival < length diffs then (Blocked, pm)
          else (let currentPrinters = filter (\<lambda>p. Name p \<noteq> []) (take (length diffs) arrival)
                in (Refreshed currentPrinters,
                    pm\<lparr>gcpPrintersByGCPID := Refresh currentPrinters\<rparr>)))"

section \<open>The reconciliation loop and the constructor\<close>

datatype manager_event =
    List_call
  | Printer_call string
  | SetPrinterXMPPPingInterval_call Printer
  | SetConnectorXMPPPingInterval_call "64 word"
  | SyncPrinters_call sync_result
  | Timer_Reset
  | Error_logged error
  | Interval_change_logged Printer
  | Quit_acknowledged

subsection \<open>syncPrintersPeriodically\<close>

text \<open>
  What the \<^verbatim>\<open>select\<close> of the loop receives: the timer fires (with the collaborators'
  answers for the round that follows and the order of arrival on its channel), a printer
  ID arrives on \<^verbatim>\<open>gcpPrinterUpdates\<close> (with the answers of \<^verbatim>\<open>gcp.Printer\<close> and
  \<^verbatim>\<open>gcp.SetPrinterXMPPPingInterval\<close>), or \<^verbatim>\<open>Quit\<close> sends on \<^verbatim>\<open>printerPollQuit\<close>.
\<close>

datatype loop_event =
    Timer_fired sync_env "Printer list"
  | Printer_updated string "error + Printer" "error option"
  | Quit_received

text \<open>
  The body of the \<^verbatim>\<open>for\<close> loop, over the events received so far. In the quit case
  the goroutine sends the acknowledgement and executes \<^verbatim>\<open>break\<close>, which in Go leaves
  the innermost \<^verbatim>\<open>select\<close>, not the \<^verbatim>\<open>for\<close> around it: the next iteration follows.
  A round that waits for ever on its channel keeps the loop from going on.
\<close>

fun syncPrintersPeriodically_loop ::
  "PrinterManager \<Rightarrow> loop_event list \<Rightarrow> PrinterManager \<times> manager_event list" where
  "syncPrintersPeriodically_loop pm [] = (pm, [])"
| "syncPrintersPeriodically_loop pm (Timer_fired env arrival # events) =
     (case syncPrinters env arrival pm of
        (Blocked, pm') \<Rightarrow> (pm', [SyncPrinters_call Blocked])
      | (Sync_failed err, pm') \<Rightarrow>
          (case syncPrintersPeriodically_loop pm' events of
             (pm'', acts) \<Rightarrow>
               (pm'', [SyncPrinters_call (Sync_failed err), Error_logged err, Timer_Reset] @ acts))
      | (In_sync, pm') \<Rightarrow>
          (case syncPrintersPeriodically_loop pm' events of
             (pm'', acts) \<Rightarrow> (pm'', [SyncPrinters_call In_sync, Timer_Reset] @ acts))
      | (Refreshed ps, pm') \<Rightarrow>
          (case syncPrintersPeriodically_loop pm' events of
             (pm'', acts) \<Rightarrow> (pm'', [SyncPrinters_call (Refreshed ps), Timer_Reset] @ acts)))"
| "syncPrintersPeriodically_loop pm (Printer_updated gcpID printer_result set_result # events) =
     (case syncPrintersPeriodically_loop pm events of
        (pm'', acts) \<Rightarrow>
          (pm'',
           (case printer_result of
              Inl err \<Rightarrow> [Printer_call gcpID, Error_logged err]
            | Inr p \<Rightarrow>
                (case set_result of
                   Some err \<Rightarrow>
                     [Printer_call gcpID, SetPrinterXMPPPingInterval_call p, Error_logged err]
                 | None \<Rightarrow>
                     [Printer_call gcpID, SetPrinterXMPPPingInterval_call p,
                      Interval_change_logged p]))
           @ acts))"
| "syncPrintersPeriodically_loop pm (Quit_received # events) =
     (case syncPrintersPeriodically_loop pm events of
        (pm'', acts) \<Rightarrow> (pm'', Quit_acknowledged # acts))"

text \<open>The reconciliation rounds and ping-interval updates among the actions of the loop.\<close>

fun is_round_or_update :: "manager_event \<Rightarrow> bool" where
  "is_round_or_update (SyncPrinters_call r) = True"
| "is_round_or_update (SetPrinterXMPPPingInterval_call p) = True"
| "is_round_or_update (Printer_call gcpID) = True"
| "is_round_or_update ev = False"

subsection \<open>NewPrinterManager: the ping intervals\<close>

text \<open>\<^verbatim>\<open>math.MaxInt64\<close> as a \<^verbatim>\<open>time.Duration\<close>.\<close>

definition MaxInt64 :: "64 word" where
  "MaxInt64 = 0x7FFFFFFFFFFFFFFF"



text \<open>Lines 79 to 84: the minimum of the printers' intervals, compared as signed numbers.\<close>

definition connectorXMPPPingInterval :: "Printer list \<Rightarrow> 64 word" where
  "connectorXMPPPingInterval printers =
     fold (\<lambda>p connectorXMPPPingInterval.
             if word_sless (XMPPPingInterval p) connectorXMPPPingInterval
             then XMPPPingInterval p else connectorXMPPPingInterval)
       printers MaxInt64"


section \<open>Sample inputs\<close>

text \<open>
  Declarations in which the local job states are numbers, the zero local state maps to
  \<^verbatim>\<open>InProgress\<close> and the zero cloud state is none of the three states the manager
  names; a manager with one printer; a job; and the answers to it.
\<close>

definition sample_lib :: "nat lib_decls" where
  "sample_lib =
     \<lparr>CUPSJobState_zero = 0, GCPJobState_zero = GCPJobState_other 0,
      GCPJobState_of =
        (\<lambda>c. if c = 6 then (GCPJobDone, GCPJobStateCause_value 0)
             else if c = 5 then (GCPJobAborted, GCPJobPrintFailure)
             else (GCPJobInProgress, GCPJobStateCause_value 0))\<rparr>"

definition sample_printer :: Printer where
  "sample_printer =
     \<lparr>Name = ''lp'', GCPID = ''P1'', XMPPPingInterval = 120, CUPSJobSemaphore = NewSemaphore 2\<rparr>"

definition sample_manager :: PrinterManager where
  "sample_manager =
     \<lparr>gcpPrintersByGCPID = [(''P1'', sample_printer)], jobsDone = 0, jobsError = 0,
      jobsInFlight = Map.empty, cupsQueueSize = 2, jobFullUsername = False,
      ignoreRawPrinters = False, shareScope = ''g@example.com''\<rparr>"

definition sample_job :: Job where
  "sample_job =
     \<lparr>GCPJobID = ''J1'', GCPPrinterID = ''P1'', FileURL = ''https://cloud/J1.pdf'',
      OwnerID = ''bob@example.com'', Title = replicate 300 CHR ''t''\<rparr>"

definition sample_env :: "nat job_env" where
  "sample_env =
     \<lparr>Ticket_result = Inr [], CreateTempFile_result = Inr ''/tmp/J1.pdf'',
      Download_result = None, Print_result = Inr 7,
      GetJobState_results = [Inr (4, 0), Inr (4, 3), Inr (6, 7)],
      downloadSemaphore = NewSemaphore 5\<rparr>"

text \<open>A reconciliation round with four diffs, two of which fail, and the order of arrival.\<close>

definition sample_diffs :: "PrinterDiff list" where
  "sample_diffs =
     [\<lparr>Operation = UpdatePrinter, Printer = sample_printer\<rparr>,
      \<lparr>Operation = RegisterPrinter,
       Printer = \<lparr>Name = ''laser'', GCPID = [], XMPPPingInterval = 0,
                  CUPSJobSemaphore = NilSemaphore\<rparr>\<rparr>,
      \<lparr>Operation = RegisterPrinter,
       Printer = \<lparr>Name = ''plotter'', GCPID = [], XMPPPingInterval = 0,
                  CUPSJobSemaphore = NilSemaphore\<rparr>\<rparr>,
      \<lparr>Operation = DeletePrinter,
       Printer = \<lparr>Name = ''old'', GCPID = ''P0'', XMPPPingInterval = 60,
                  CUPSJobSemaphore = NewSemaphore 2\<rparr>\<rparr>]"

definition sample_sync_env :: sync_env where
  "sample_sync_env =
     \<lparr>GetPrinters_result = Inr [],
      FilterRawPrinters = (\<lambda>printers. (printers, [])),
      DiffPrinters = (\<lambda>cupsPrinters gcpPrinters. Some sample_diffs),
      GetPPD = (\<lambda>name. if name = ''plotter'' then Inl ''no such file'' else Inr ''*PPD-Adobe''),
      Register = (\<lambda>printer ppd. (None, printer\<lparr>GCPID := ''P2''\<rparr>)),
      CanShare = True,
      Share = (\<lambda>gcpID scope. Some ''forbidden''),
      Update = (\<lambda>diff. (Some ''conflict'', diff)),
      Delete = (\<lambda>gcpID. Some ''unreachable'')\<rparr>"

definition sample_arrival :: "Printer list" where
  "sample_arrival =
     [Printer_zero,
      \<lparr>Name = ''laser'', GCPID = ''P2'', XMPPPingInterval = 0,
       CUPSJobSemaphore = NewSemaphore 2\<rparr>,
      Printer_zero,
      sample_printer]"



section \<open>Properties of the job processor\<close>

subsection \<open>The follow loop and the helpers of processJob\<close>

lemma incr_inflight [simp]: "jobsInFlight (incrementJobsProcessed b pm) = jobsInFlight pm"
  by (simp add: incrementJobsProcessed_def)

lemma incr_full [simp]: "jobFullUsername (incrementJobsProcessed b pm) = jobFullUsername pm"
  by (simp add: incrementJobsProcessed_def)

lemma followJob_poll_events:
  "followJob_poll L job cid vars poll = (vars', evs, ex) \<Longrightarrow>
     \<forall>ev \<in> set evs. (\<exists>c. ev = GetJobState_call c) \<or> is_Control ev"
  by (auto simp: followJob_poll_def Let_def split: prod.splits sum.splits if_splits)

lemma followJob_loop_inv:
  "followJob_loop L job cid vars polls pm = (pm', evs, out) \<Longrightarrow>
     jobsInFlight pm' = jobsInFlight pm \<and>
     (\<forall>ev \<in> set evs. (\<exists>c. ev = GetJobState_call c) \<or> is_Control ev)"
proof (induction polls arbitrary: vars pm' evs out)
  case Nil
  then show ?case by simp
next
  case (Cons poll polls)
  obtain vars1 evs1 ex where p: "followJob_poll L job cid vars poll = (vars1, evs1, ex)"
    by (cases "followJob_poll L job cid vars poll") auto
  note e1 = followJob_poll_events [OF p]
  show ?case
  proof (cases ex)
    case None
    obtain pm2 evs2 out2 where r: "followJob_loop L job cid vars1 polls pm = (pm2, evs2, out2)"
      by (cases "followJob_loop L job cid vars1 polls pm") auto
    from Cons.IH [OF r] Cons.prems p None r e1 show ?thesis by auto
  next
    case (Some b)
    with Cons.prems p e1 show ?thesis by auto
  qed
qed

lemma followJob_loop_exits:
  "\<exists>poll \<in> set polls. isl poll \<Longrightarrow> snd (snd (followJob_loop L job cid vars polls pm)) = Returned"
proof (induction polls arbitrary: vars)
  case Nil
  then show ?case by simp
next
  case (Cons poll polls)
  obtain vars1 evs1 ex where p: "followJob_poll L job cid vars poll = (vars1, evs1, ex)"
    by (cases "followJob_poll L job cid vars poll") auto
  show ?case
  proof (cases ex)
    case (Some b)
    with p show ?thesis by simp
  next
    case None
    with p have "\<not> isl poll"
      by (auto simp: followJob_poll_def Let_def split: prod.splits sum.splits if_splits)
    with Cons.prems have "\<exists>poll \<in> set polls. isl poll" by auto
    from Cons.IH [OF this, of vars1] p None show ?thesis
      by (cases "followJob_loop L job cid vars1 polls pm") auto
  qed
qed

lemma strings_Split_nonempty: "strings_Split s sep \<noteq> []"
  by (induction s) (auto split: list.splits)

lemma strings_Split_hd: "\<exists>pieces. strings_Split s sep = takeWhile (\<lambda>c. c \<noteq> sep) s # pieces"
  by (induction s) (auto split: list.splits)

lemma processJob_ownerID_eq:
  "processJob_ownerID pm job =
     Some (if jobFullUsername pm then OwnerID job else takeWhile (\<lambda>c. c \<noteq> CHR ''@'') (OwnerID job))"
  using strings_Split_hd [of "OwnerID job" "CHR ''@''"]
  by (auto simp: processJob_ownerID_def)

lemma processJob_jobTitle_eq:
  "processJob_jobTitle job = take 255 (''gcp:'' @ GCPJobID job @ '' '' @ Title job)"
  by (simp add: processJob_jobTitle_def Let_def)

lemma followJob_inv:
  "followJob L env pm job cid = (pm', evs, out) \<Longrightarrow>
     jobsInFlight pm' = jobsInFlight pm \<and>
     (\<forall>ev \<in> set evs. (\<exists>c. ev = GetJobState_call c) \<or> is_Control ev)"
  unfolding followJob_def by (rule followJob_loop_inv)

lemma assembleJob_events:
  "assembleJob env pm job = (r, evs) \<Longrightarrow> ev \<in> set evs \<Longrightarrow> \<not> is_Print ev \<and> \<not> is_Control ev"
  by (auto simp: assembleJob_def split: option.splits sum.splits)

lemma processJob_submit_prints:
  assumes "processJob_submit L env pm job printer opts path = (pm', evs, out)"
    and "Print_call a b c d e \<in> set evs"
  shows "a = Name printer \<and> b = path \<and> c = processJob_jobTitle job \<and>
         processJob_ownerID pm job = Some d \<and> e = opts"
proof (cases "Print_result env")
  case (Inl err)
  with assms show ?thesis
    by (auto simp: processJob_submit_def deferred_def processJob_ownerID_eq split: if_splits)
next
  case (Inr cupsJobID)
  obtain pm2 evs2 out2 where f: "followJob L env pm job cupsJobID = (pm2, evs2, out2)"
    by (cases "followJob L env pm job cupsJobID") auto
  from followJob_inv [OF f] have "Print_call a b c d e \<notin> set evs2" by auto
  with assms Inr f show ?thesis
    by (auto simp: processJob_submit_def deferred_def processJob_ownerID_eq split: if_splits)
qed

lemma processJob_prints:
  assumes "Print_call a b c d e \<in> set (fst (snd (processJob L env pm job)))"
  shows "c = processJob_jobTitle job \<and> processJob_ownerID pm job = Some d"
proof -
  let ?pm1 = "pm\<lparr>jobsInFlight := (jobsInFlight pm)(GCPJobID job \<mapsto> True)\<rparr>"
  obtain printer opts pdfFile message cause evs1
    where a: "assembleJob env ?pm1 job = ((printer, opts, pdfFile, message, cause), evs1)"
    by (cases "assembleJob env ?pm1 job") auto
  have n1: "Print_call a b c d e \<notin> set evs1"
    using assembleJob_events [OF a, of "Print_call a b c d e"] by auto
  show ?thesis
  proof (cases "inFlight pm (GCPJobID job) \<or> message \<noteq> [] \<or> pdfFile = None")
    case True
    with assms a n1 show ?thesis
      by (auto simp: processJob_def addInFlightJob_def deferred_def processJob_inFlight_def
          split: if_splits)
  next
    case False
    then obtain path where pth: "pdfFile = Some path" by auto
    obtain pm2 evs2 out2
      where s: "processJob_submit L env ?pm1 job printer opts path = (pm2, evs2, out2)"
      by (cases "processJob_submit L env ?pm1 job printer opts path") auto
    from assms a n1 False pth s have "Print_call a b c d e \<in> set evs2"
      by (auto simp: processJob_def addInFlightJob_def deferred_def processJob_inFlight_def
          split: if_splits)
    from processJob_submit_prints [OF s this] show ?thesis
      by (simp add: processJob_ownerID_def)
  qed
qed

lemma files_after_append:
  "files_after (xs @ ys) files = files_after ys (files_after xs files)"
  by (induction xs files rule: files_after.induct) simp_all

lemma incr_jobsError [simp]:
  "jobsError (incrementJobsProcessed False pm) = jobsError pm + 1"
  "jobsDone (incrementJobsProcessed False pm) = jobsDone pm"
  "jobsDone (incrementJobsProcessed True pm) = jobsDone pm + 1"
  "jobsError (incrementJobsProcessed True pm) = jobsError pm"
  by (simp_all add: incrementJobsProcessed_def)

lemma processJob_submit_last:
  assumes "processJob_submit L env pm job printer opts path = (pm', evs, out)"
    and "out \<noteq> Polling"
  shows "\<exists>xs. evs = xs @ [Remove_call path] \<and> (\<forall>ev \<in> set xs. \<forall>r. ev \<noteq> CreateTempFile_call r)"
proof (cases "Print_result env")
  case (Inl err)
  with assms show ?thesis
    by (auto simp: processJob_submit_def deferred_def processJob_ownerID_eq split: if_splits)
next
  case (Inr cupsJobID)
  obtain pm2 evs2 out2 where f: "followJob L env pm job cupsJobID = (pm2, evs2, out2)"
    by (cases "followJob L env pm job cupsJobID") auto
  from followJob_inv [OF f] have "\<forall>ev \<in> set evs2. \<forall>r. ev \<noteq> CreateTempFile_call r" by auto
  with assms Inr f show ?thesis
    by (auto simp: processJob_submit_def deferred_def processJob_ownerID_eq split: if_splits)
qed

text \<open>
  Claim C4. When a processor has created its temp file and has left (by any path:
  download failure, submit failure, the end of the follow loop, a failed poll, or a
  panic), it has called \<^verbatim>\<open>os.Remove\<close> on that file, and the file does not exist after
  the calls it made, whatever files existed before.
\<close>

theorem processJob_removes_temp_file:
  assumes run: "processJob L env pm job = (pm', evs, out)"
    and exits: "out \<noteq> Polling"
    and created: "CreateTempFile_call (Inr path) \<in> set evs"
  shows "Remove_call path \<in> set evs \<and> path \<notin> files_after evs files"
proof -
  let ?pm1 = "pm\<lparr>jobsInFlight := (jobsInFlight pm)(GCPJobID job \<mapsto> True)\<rparr>"
  obtain printer opts pdfFile message cause evs1
    where a: "assembleJob env ?pm1 job = ((printer, opts, pdfFile, message, cause), evs1)"
    by (cases "assembleJob env ?pm1 job") auto
  from run created have nf: "\<not> inFlight pm (GCPJobID job)"
    by (auto simp: processJob_def addInFlightJob_def split: if_splits)
  show ?thesis
  proof (cases "message = []")
    case False
    with run nf a have evs: "evs = evs1 @ [Control_call (GCPJobID job) GCPJobAborted cause 0]"
      by (auto simp: processJob_def addInFlightJob_def deferred_def processJob_inFlight_def)
    from a False created evs show ?thesis
      by (auto simp: assembleJob_def split: option.splits sum.splits)
  next
    case True
    with a obtain p where p: "pdfFile = Some p" and c1: "CreateTempFile_result env = Inr p"
      and e1: "\<exists>ys. evs1 = [Ticket_call (GCPJobID job), CreateTempFile_call (Inr p)] @ ys
                 \<and> (\<forall>ev \<in> set ys. \<forall>r. ev \<noteq> CreateTempFile_call r)"
      by (auto simp: assembleJob_def split: option.splits sum.splits)
    obtain pm2 evs2 out2
      where s: "processJob_submit L env ?pm1 job printer opts p = (pm2, evs2, out2)"
      by (cases "processJob_submit L env ?pm1 job printer opts p") auto
    from run nf a True p s have evs: "evs = evs1 @ evs2" and o: "out2 = out"
      by (auto simp: processJob_def addInFlightJob_def deferred_def processJob_inFlight_def
          split: if_splits)
    from processJob_submit_last [OF s] exits o obtain xs
      where xs: "evs2 = xs @ [Remove_call p]" "\<forall>ev \<in> set xs. \<forall>r. ev \<noteq> CreateTempFile_call r"
      by auto
    from e1 xs evs created have "path = p" by auto
    moreover have "p \<notin> files_after evs files"
      unfolding evs xs(1) by (simp add: files_after_append del: append_assoc flip: append_assoc)
    ultimately show ?thesis using evs xs by auto
  qed
qed

text \<open>
  Claim C3, amended. For a job that is not already in flight, each failure before the
  follow phase ends the processor with exactly one \<^verbatim>\<open>Control\<close> call, which reports
  \<^verbatim>\<open>Aborted\<close> with zero pages and the cause of the failing step, and with the error
  counter incremented: \<^verbatim>\<open>Other\<close> for a missing printer and for a temp file that
  cannot be created, \<^verbatim>\<open>InvalidTicket\<close> for a failed ticket fetch, \<^verbatim>\<open>PrintFailure\<close> for a
  failed download and for a failed submission. \<^verbatim>\<open>Print\<close> is not called when one of the
  assemble steps fails; when the submission fails, \<^verbatim>\<open>Print\<close> has been called exactly
  once: it is the call that failed.
\<close>

theorem processJob_failure_reported:
  assumes accepted: "\<not> inFlight pm (GCPJobID job)"
    and run: "processJob L env pm job = (pm', evs, out)"
  shows
    "(Get (gcpPrintersByGCPID pm) (GCPPrinterID job) = None \<longrightarrow>
        out = Returned \<and> jobsError pm' = jobsError pm + 1 \<and> filter is_Print evs = [] \<and>
        filter is_Control evs = [Control_call (GCPJobID job) GCPJobAborted GCPJobOther 0]) \<and>
     (Get (gcpPrintersByGCPID pm) (GCPPrinterID job) = Some printer \<longrightarrow>
        (Ticket_result env = Inl err \<longrightarrow>
           out = Returned \<and> jobsError pm' = jobsError pm + 1 \<and> filter is_Print evs = [] \<and>
           filter is_Control evs =
             [Control_call (GCPJobID job) GCPJobAborted GCPJobInvalidTicket 0]) \<and>
        (Ticket_result env = Inr opts \<longrightarrow>
           (CreateTempFile_result env = Inl err \<longrightarrow>
              out = Returned \<and> jobsError pm' = jobsError pm + 1 \<and> filter is_Print evs = [] \<and>
              filter is_Control evs = [Control_call (GCPJobID job) GCPJobAborted GCPJobOther 0]) \<and>
           (CreateTempFile_result env = Inr path \<longrightarrow>
              (Download_result env = Some err \<longrightarrow>
                 out = Returned \<and> jobsError pm' = jobsError pm + 1 \<and> filter is_Print evs = [] \<and>
                 filter is_Control evs =
                   [Control_call (GCPJobID job) GCPJobAborted GCPJobPrintFailure 0]) \<and>
              (Download_result env = None \<and> Print_result env = Inl err \<longrightarrow>
                 out = Returned \<and> jobsError pm' = jobsError pm + 1 \<and>
                 filter is_Print evs =
                   [Print_call (Name printer) path
                      (take 255 (''gcp:'' @ GCPJobID job @ '' '' @ Title job))
                      (if jobFullUsername pm then OwnerID job
                       else takeWhile (\<lambda>c. c \<noteq> CHR ''@'') (OwnerID job))
                      opts] \<and>
                 filter is_Control evs =
                   [Control_call (GCPJobID job) GCPJobAborted GCPJobPrintFailure 0]))))"
  using accepted run
  by (auto simp: processJob_def addInFlightJob_def deferred_def processJob_inFlight_def
      assembleJob_def processJob_submit_def processJob_ownerID_eq processJob_jobTitle_eq
      deleteInFlightJob_def incrementJobsProcessed_def Get_def
      split: if_splits)

lemma inFlight_add:
  "addInFlightJob gcpJobID pm = (b, pm') \<Longrightarrow>
     b = (\<not> inFlight pm gcpJobID) \<and>
     (\<forall>k. inFlight pm' k = (inFlight pm k \<or> k = gcpJobID))"
  by (auto simp: addInFlightJob_def inFlight_def split: if_splits option.splits)

lemma inFlight_delete:
  "inFlight (deleteInFlightJob gcpJobID pm) k = (inFlight pm k \<and> k \<noteq> gcpJobID)"
  by (auto simp: deleteInFlightJob_def inFlight_def split: option.splits)

lemma inFlight_cong: "jobsInFlight pm' = jobsInFlight pm \<Longrightarrow> inFlight pm' k = inFlight pm k"
  by (simp add: inFlight_def)

lemma step_invariant:
  assumes st: "step (pm, ps) (pm', ps')"
    and held: "\<forall>i<length ps. \<forall>job. ps ! i = Processing job \<longrightarrow> inFlight pm (GCPJobID job)"
    and uniq: "\<forall>i<length ps. \<forall>j<length ps. \<forall>job job'.
                 ps ! i = Processing job \<and> ps ! j = Processing job' \<and>
                 GCPJobID job = GCPJobID job' \<longrightarrow> i = j"
  shows "(\<forall>i<length ps'. \<forall>job. ps' ! i = Processing job \<longrightarrow> inFlight pm' (GCPJobID job)) \<and>
         (\<forall>i<length ps'. \<forall>j<length ps'. \<forall>job job'.
            ps' ! i = Processing job \<and> ps' ! j = Processing job' \<and>
            GCPJobID job = GCPJobID job' \<longrightarrow> i = j)"
  using st
proof (cases rule: step.cases)
  case (dispatch job)
  with held uniq show ?thesis
    by (auto simp: nth_append less_Suc_eq)
next
  case (duplicate i job)
  from inFlight_add [OF duplicate(4)] have "\<forall>k. inFlight pm' k = inFlight pm k" by auto
  with duplicate held uniq show ?thesis
    by (auto simp: nth_list_update split: if_splits)
next
  case (enter i job)
  from inFlight_add [OF enter(4)]
  have fresh: "\<not> inFlight pm (GCPJobID job)"
    and add: "\<forall>k. inFlight pm' k = (inFlight pm k \<or> k = GCPJobID job)" by auto
  from fresh held have none: "\<forall>j<length ps. \<forall>job'. ps ! j = Processing job' \<longrightarrow>
      GCPJobID job' \<noteq> GCPJobID job" by auto
  have a: "\<forall>k<length ps'. \<forall>job'. ps' ! k = Processing job' \<longrightarrow> inFlight pm' (GCPJobID job')"
    using enter held add by (auto simp: nth_list_update split: if_splits)
  have b: "\<forall>k<length ps'. \<forall>j<length ps'. \<forall>job1 job2.
            ps' ! k = Processing job1 \<and> ps' ! j = Processing job2 \<and>
            GCPJobID job1 = GCPJobID job2 \<longrightarrow> k = j"
  proof (intro allI impI)
    fix k j job1 job2
    assume k: "k < length ps'" and j: "j < length ps'"
      and h: "ps' ! k = Processing job1 \<and> ps' ! j = Processing job2 \<and>
              GCPJobID job1 = GCPJobID job2"
    show "k = j"
    proof (cases "k = i")
      case True
      show ?thesis
      proof (rule ccontr)
        assume "k \<noteq> j"
        with True k j h enter have "ps ! j = Processing job2" "job1 = job" "j < length ps"
          by (auto simp: nth_list_update split: if_splits)
        with none h show False by auto
      qed
    next
      case False
      show ?thesis
      proof (cases "j = i")
        case True
        with False k j h enter have "ps ! k = Processing job1" "job2 = job" "k < length ps"
          by (auto simp: nth_list_update split: if_splits)
        with none h show ?thesis by auto
      next
        case jf: False
        with False k j h enter have "ps ! k = Processing job1" "ps ! j = Processing job2"
          "k < length ps" "j < length ps" by auto
        with uniq h show ?thesis by blast
      qed
    qed
  qed
  from a b show ?thesis by blast
next
  case work
  with held uniq inFlight_cong [of pm' pm] show ?thesis by auto
next
  case (leave i job)
  have a: "\<forall>k<length ps'. \<forall>job'. ps' ! k = Processing job' \<longrightarrow> inFlight pm' (GCPJobID job')"
  proof (intro allI impI)
    fix k job'
    assume k: "k < length ps'" and h: "ps' ! k = Processing job'"
    with leave have ki: "k \<noteq> i" and pk: "ps ! k = Processing job'" and kl: "k < length ps"
      by (auto simp: nth_list_update split: if_splits)
    with uniq leave have "GCPJobID job' \<noteq> GCPJobID job" by blast
    with held pk kl show "inFlight pm' (GCPJobID job')"
      by (simp add: leave(1) inFlight_delete)
  qed
  have b: "\<forall>k<length ps'. \<forall>j<length ps'. \<forall>job1 job2.
            ps' ! k = Processing job1 \<and> ps' ! j = Processing job2 \<and>
            GCPJobID job1 = GCPJobID job2 \<longrightarrow> k = j"
  proof (intro allI impI)
    fix k j job1 job2
    assume k: "k < length ps'" and j: "j < length ps'"
      and h: "ps' ! k = Processing job1 \<and> ps' ! j = Processing job2 \<and>
              GCPJobID job1 = GCPJobID job2"
    with leave have "ps ! k = Processing job1" "ps ! j = Processing job2"
      "k < length ps" "j < length ps"
      by (auto simp: nth_list_update split: if_splits)
    with uniq h show "k = j" by blast
  qed
  from a b show ?thesis by blast
qed

lemma reachable_invariant:
  "reachable c \<Longrightarrow>
     (\<forall>i<length (snd c). \<forall>job. snd c ! i = Processing job \<longrightarrow> inFlight (fst c) (GCPJobID job)) \<and>
     (\<forall>i<length (snd c). \<forall>j<length (snd c). \<forall>job job'.
        snd c ! i = Processing job \<and> snd c ! j = Processing job' \<and>
        GCPJobID job = GCPJobID job' \<longrightarrow> i = j)"
proof (induction rule: reachable.induct)
  case (initial pm)
  then show ?case by simp
next
  case (after c c')
  obtain pm ps pm' ps' where c: "c = (pm, ps)" "c' = (pm', ps')"
    by (cases c, cases c') auto
  from step_invariant [of pm ps pm' ps'] after c show ?case by simp
qed

text \<open>
  The panic branches of the model are never taken, and a processor leaves whenever one
  of the polls it is given fails.
\<close>

lemma followJob_loop_outcome:
  "snd (snd (followJob_loop L job cid vars polls pm)) \<noteq> Panicked"
proof (induction polls arbitrary: vars)
  case Nil
  then show ?case by simp
next
  case (Cons poll polls)
  obtain vars1 evs1 ex where p: "followJob_poll L job cid vars poll = (vars1, evs1, ex)"
    by (cases "followJob_poll L job cid vars poll") auto
  show ?case
  proof (cases ex)
    case (Some b)
    with p show ?thesis by simp
  next
    case None
    from Cons.IH [of vars1] p None show ?thesis
      by (cases "followJob_loop L job cid vars1 polls pm") auto
  qed
qed

lemma processJob_never_panics: "snd (snd (processJob L env pm job)) \<noteq> Panicked"
proof -
  let ?pm1 = "pm\<lparr>jobsInFlight := (jobsInFlight pm)(GCPJobID job \<mapsto> True)\<rparr>"
  have sub: "snd (snd (processJob_submit L env ?pm1 job printer opts path)) \<noteq> Panicked"
    for printer opts path
  proof (cases "Print_result env")
    case (Inl err)
    then show ?thesis
      by (simp add: processJob_submit_def deferred_def processJob_ownerID_eq)
  next
    case (Inr cupsJobID)
    obtain pm2 evs2 out2 where f: "followJob L env ?pm1 job cupsJobID = (pm2, evs2, out2)"
      by (cases "followJob L env ?pm1 job cupsJobID") auto
    from followJob_loop_outcome [of L job cupsJobID "(CUPSJobState_zero L, GCPJobState_zero L, 0)"
        "GetJobState_results env" ?pm1] f
    have "out2 \<noteq> Panicked" by (simp add: followJob_def)
    with Inr f show ?thesis
      by (simp add: processJob_submit_def deferred_def processJob_ownerID_eq)
  qed
  have inf: "snd (snd (processJob_inFlight L env ?pm1 job)) \<noteq> Panicked"
  proof -
    obtain printer opts pdfFile message cause evs1
      where a: "assembleJob env ?pm1 job = ((printer, opts, pdfFile, message, cause), evs1)"
      by (cases "assembleJob env ?pm1 job") auto
    show ?thesis
    proof (cases "message = []")
      case False
      with a show ?thesis by (simp add: processJob_inFlight_def)
    next
      case True
      with a obtain path where "pdfFile = Some path"
        by (auto simp: assembleJob_def split: option.splits sum.splits)
      with a True sub [of printer opts path] show ?thesis
        by (cases "processJob_submit L env ?pm1 job printer opts path")
          (simp add: processJob_inFlight_def)
    qed
  qed
  show ?thesis
  proof (cases "inFlight pm (GCPJobID job)")
    case True
    then show ?thesis by (simp add: processJob_def addInFlightJob_def)
  next
    case False
    with inf show ?thesis
      by (cases "processJob_inFlight L env ?pm1 job")
        (auto simp: processJob_def addInFlightJob_def deferred_def)
  qed
qed

lemma processJob_returns:
  assumes "\<exists>poll \<in> set (GetJobState_results env). isl poll"
  shows "snd (snd (processJob L env pm job)) = Returned"
proof -
  let ?pm1 = "pm\<lparr>jobsInFlight := (jobsInFlight pm)(GCPJobID job \<mapsto> True)\<rparr>"
  have sub: "snd (snd (processJob_submit L env ?pm1 job printer opts path)) = Returned"
    for printer opts path
  proof (cases "Print_result env")
    case (Inl err)
    then show ?thesis
      by (simp add: processJob_submit_def deferred_def processJob_ownerID_eq)
  next
    case (Inr cupsJobID)
    obtain pm2 evs2 out2 where f: "followJob L env ?pm1 job cupsJobID = (pm2, evs2, out2)"
      by (cases "followJob L env ?pm1 job cupsJobID") auto
    from followJob_loop_exits [OF assms, of L job cupsJobID
        "(CUPSJobState_zero L, GCPJobState_zero L, 0)" ?pm1] f
    have "out2 = Returned" by (simp add: followJob_def)
    with Inr f show ?thesis
      by (simp add: processJob_submit_def deferred_def processJob_ownerID_eq)
  qed
  have inf: "snd (snd (processJob_inFlight L env ?pm1 job)) = Returned"
  proof -
    obtain printer opts pdfFile message cause evs1
      where a: "assembleJob env ?pm1 job = ((printer, opts, pdfFile, message, cause), evs1)"
      by (cases "assembleJob env ?pm1 job") auto
    show ?thesis
    proof (cases "message = []")
      case False
      with a show ?thesis by (simp add: processJob_inFlight_def)
    next
      case True
      with a obtain path where "pdfFile = Some path"
        by (auto simp: assembleJob_def split: option.splits sum.splits)
      with a True sub [of printer opts path] show ?thesis
        by (cases "processJob_submit L env ?pm1 job printer opts path")
          (simp add: processJob_inFlight_def)
    qed
  qed
  show ?thesis
  proof (cases "inFlight pm (GCPJobID job)")
    case True
    then show ?thesis by (simp add: processJob_def addInFlightJob_def)
  next
    case False
    with inf show ?thesis
      by (cases "processJob_inFlight L env ?pm1 job")
        (auto simp: processJob_def addInFlightJob_def deferred_def)
  qed
qed

lemma processJob_inFlight_keeps:
  "processJob_inFlight L env pm job = (pm', evs, out) \<Longrightarrow> jobsInFlight pm' = jobsInFlight pm"
proof -
  assume r: "processJob_inFlight L env pm job = (pm', evs, out)"
  obtain printer opts pdfFile message cause evs1
    where a: "assembleJob env pm job = ((printer, opts, pdfFile, message, cause), evs1)"
    by (cases "assembleJob env pm job") auto
  show ?thesis
  proof (cases "message \<noteq> [] \<or> pdfFile = None")
    case True
    with r a show ?thesis
      by (auto simp: processJob_inFlight_def split: if_splits)
  next
    case False
    then obtain path where p: "pdfFile = Some path" by auto
    show ?thesis
    proof (cases "Print_result env")
      case (Inl err)
      with r a False p show ?thesis
        by (auto simp: processJob_inFlight_def processJob_submit_def deferred_def
            processJob_ownerID_eq split: if_splits)
    next
      case (Inr cupsJobID)
      obtain pm2 evs2 out2 where f: "followJob L env pm job cupsJobID = (pm2, evs2, out2)"
        by (cases "followJob L env pm job cupsJobID") auto
      from followJob_inv [OF f] r a False p Inr f show ?thesis
        by (auto simp: processJob_inFlight_def processJob_submit_def deferred_def
            processJob_ownerID_eq split: if_splits)
    qed
  qed
qed

text \<open>
  Claim C1. A job whose ID is in the in-flight set makes \<^verbatim>\<open>processJob\<close> return at
  once: no call is made and the manager, counters included, is unchanged. Otherwise the
  ID is inserted first, everything else runs with the ID in the set, and the ID is
  removed when the processor leaves, by return or by panic (while the processor is
  still following the job, the ID stays in the set). In every state that processors
  running side by side can reach, two processors that are past the insertion and have
  not left work on jobs with different IDs.
\<close>

theorem processJob_dedupe:
  "(inFlight pm (GCPJobID job) \<longrightarrow> processJob L env pm job = (pm, [], Returned)) \<and>
   (\<not> inFlight pm (GCPJobID job) \<longrightarrow>
      processJob L env pm job =
        deferred (deleteInFlightJob (GCPJobID job)) []
          (processJob_inFlight L env
             (pm\<lparr>jobsInFlight := (jobsInFlight pm)(GCPJobID job \<mapsto> True)\<rparr>) job) \<and>
      jobsInFlight (fst (processJob L env pm job)) =
        (if snd (snd (processJob L env pm job)) = Polling
         then (jobsInFlight pm)(GCPJobID job \<mapsto> True)
         else (jobsInFlight pm)(GCPJobID job := None))) \<and>
   (reachable (pm', ps) \<longrightarrow>
      (\<forall>i<length ps. \<forall>j<length ps. \<forall>job1 job2.
         ps ! i = Processing job1 \<and> ps ! j = Processing job2 \<and>
         GCPJobID job1 = GCPJobID job2 \<longrightarrow> i = j))"
proof (intro conjI impI)
  assume "inFlight pm (GCPJobID job)"
  then show "processJob L env pm job = (pm, [], Returned)"
    by (simp add: processJob_def addInFlightJob_def)
next
  assume n: "\<not> inFlight pm (GCPJobID job)"
  let ?pm1 = "pm\<lparr>jobsInFlight := (jobsInFlight pm)(GCPJobID job \<mapsto> True)\<rparr>"
  from n show e: "processJob L env pm job =
      deferred (deleteInFlightJob (GCPJobID job)) [] (processJob_inFlight L env ?pm1 job)"
    by (simp add: processJob_def addInFlightJob_def)
  obtain pm2 evs out where r: "processJob_inFlight L env ?pm1 job = (pm2, evs, out)"
    by (cases "processJob_inFlight L env ?pm1 job") auto
  from processJob_inFlight_keeps [OF r]
  show "jobsInFlight (fst (processJob L env pm job)) =
      (if snd (snd (processJob L env pm job)) = Polling
       then (jobsInFlight pm)(GCPJobID job \<mapsto> True)
       else (jobsInFlight pm)(GCPJobID job := None))"
    by (simp add: e r deferred_def deleteInFlightJob_def)
next
  assume "reachable (pm', ps)"
  from reachable_invariant [OF this]
  show "\<forall>i<length ps. \<forall>j<length ps. \<forall>job1 job2.
         ps ! i = Processing job1 \<and> ps ! j = Processing job2 \<and>
         GCPJobID job1 = GCPJobID job2 \<longrightarrow> i = j"
    by simp
qed

lemma sample_reachable:
  "reachable (sample_manager\<lparr>jobsInFlight := [''J1'' \<mapsto> True]\<rparr>,
              [Processing sample_job, Received sample_job])"
proof -
  have 0: "reachable (sample_manager, [])"
    by (rule reachable.initial) (simp add: sample_manager_def)
  have 1: "reachable (sample_manager, [Received sample_job])"
    using reachable.after [OF 0 step.dispatch [of sample_manager "[]" sample_job]] by simp
  have 2: "reachable (sample_manager, [Received sample_job, Received sample_job])"
    using reachable.after [OF 1 step.dispatch [of sample_manager "[Received sample_job]" sample_job]]
    by simp
  have a: "addInFlightJob (GCPJobID sample_job) sample_manager =
      (True, sample_manager\<lparr>jobsInFlight := [''J1'' \<mapsto> True]\<rparr>)"
    by (simp add: addInFlightJob_def inFlight_def sample_manager_def sample_job_def)
  have "step (sample_manager, [Received sample_job, Received sample_job])
      (sample_manager\<lparr>jobsInFlight := [''J1'' \<mapsto> True]\<rparr>,
       [Received sample_job, Received sample_job][0 := Processing sample_job])"
    by (rule step.enter [OF _ _ a]) simp_all
  with reachable.after [OF 2] show ?thesis by simp
qed

text \<open>
  The sample job on a manager that has it in flight and on one that has not; a
  reachable state with one active and one waiting processor for the same job; and a
  state with two active processors for the same job, which is not reachable.
\<close>

theorem processJob_dedupe_witness:
  "processJob sample_lib sample_env (sample_manager\<lparr>jobsInFlight := [''J1'' \<mapsto> True]\<rparr>)
      sample_job = (sample_manager\<lparr>jobsInFlight := [''J1'' \<mapsto> True]\<rparr>, [], Returned) \<and>
   jobsInFlight (fst (processJob sample_lib sample_env sample_manager sample_job)) ''J1'' = None \<and>
   reachable (sample_manager\<lparr>jobsInFlight := [''J1'' \<mapsto> True]\<rparr>,
              [Processing sample_job, Received sample_job]) \<and>
   \<not> reachable (sample_manager, [Processing sample_job, Processing sample_job])"
proof (intro conjI)
  let ?busy = "sample_manager\<lparr>jobsInFlight := [''J1'' \<mapsto> True]\<rparr>"
  have b: "inFlight ?busy (GCPJobID sample_job)"
    by (simp add: inFlight_def sample_job_def)
  from processJob_dedupe [of ?busy sample_job sample_lib sample_env] b
  show "processJob sample_lib sample_env ?busy sample_job = (?busy, [], Returned)" by simp
  have n: "\<not> inFlight sample_manager (GCPJobID sample_job)"
    by (simp add: inFlight_def sample_job_def sample_manager_def)
  have o: "snd (snd (processJob sample_lib sample_env sample_manager sample_job)) = Returned"
    by code_simp
  let ?r = "processJob sample_lib sample_env sample_manager sample_job"
  from processJob_dedupe [of sample_manager sample_job sample_lib sample_env] n
  have "jobsInFlight (fst ?r) =
      (if snd (snd ?r) = Polling
       then (jobsInFlight sample_manager)(GCPJobID sample_job \<mapsto> True)
       else (jobsInFlight sample_manager)(GCPJobID sample_job := None))"
    by blast
  then have "jobsInFlight (fst ?r) = (jobsInFlight sample_manager)(GCPJobID sample_job := None)"
    by (simp only: o) simp
  then show "jobsInFlight (fst ?r) ''J1'' = None"
    by (simp add: sample_job_def)
  show "reachable (?busy, [Processing sample_job, Received sample_job])"
    by (rule sample_reachable)
  show "\<not> reachable (sample_manager, [Processing sample_job, Processing sample_job])"
  proof
    assume r: "reachable (sample_manager, [Processing sample_job, Processing sample_job])"
    let ?ps = "[Processing sample_job, Processing sample_job]"
    from processJob_dedupe [of sample_manager sample_job sample_lib sample_env sample_manager ?ps] r
    have u: "\<forall>i<length ?ps. \<forall>j<length ?ps. \<forall>job1 job2.
         ?ps ! i = Processing job1 \<and> ?ps ! j = Processing job2 \<and>
         GCPJobID job1 = GCPJobID job2 \<longrightarrow> i = j"
      by blast
    from u [rule_format, of 0 1 sample_job sample_job] show False by simp
  qed
qed

text \<open>
  Claim C8. The title of every \<^verbatim>\<open>Print\<close> call of a processor is \<^verbatim>\<open>"gcp:"\<close>, the job ID, a
  space and the job's title, cut to its first 255 bytes; it is at most 255 bytes long.
\<close>

theorem processJob_title_truncated:
  "Print_call printer path title owner opts \<in> set (fst (snd (processJob L env pm job))) \<Longrightarrow>
     title = take 255 (''gcp:'' @ GCPJobID job @ '' '' @ Title job) \<and> length title \<le> 255"
  using processJob_prints [of printer path title owner opts L env pm job]
  by (simp add: processJob_jobTitle_eq)

text \<open>The sample job has a title of 300 bytes; 248 of them are submitted.\<close>

theorem processJob_title_truncated_witness:
  "Print_call ''lp'' ''/tmp/J1.pdf'' (''gcp:J1 '' @ replicate 248 CHR ''t'') ''bob'' []
     \<in> set (fst (snd (processJob sample_lib sample_env sample_manager sample_job))) \<and>
   ''gcp:J1 '' @ replicate 248 CHR ''t'' =
     take 255 (''gcp:'' @ GCPJobID sample_job @ '' '' @ Title sample_job) \<and>
   length (''gcp:J1 '' @ replicate 248 CHR ''t'') \<le> 255"
proof -
  have m: "Print_call ''lp'' ''/tmp/J1.pdf'' (''gcp:J1 '' @ replicate 248 CHR ''t'') ''bob'' []
     \<in> set (fst (snd (processJob sample_lib sample_env sample_manager sample_job)))"
    by code_simp
  from m processJob_title_truncated [OF m] show ?thesis by simp
qed

text \<open>
  Claim C9. With \<^verbatim>\<open>jobFullUsername\<close> false, the owner of every \<^verbatim>\<open>Print\<close> call is the part
  of \<^verbatim>\<open>OwnerID\<close> before its first \<^verbatim>\<open>@\<close> and contains no \<^verbatim>\<open>@\<close>; with
  \<^verbatim>\<open>jobFullUsername\<close> true it is \<^verbatim>\<open>OwnerID\<close> unchanged.
\<close>

theorem processJob_owner_normalized:
  "Print_call printer path title owner opts \<in> set (fst (snd (processJob L env pm job))) \<Longrightarrow>
     (\<not> jobFullUsername pm \<longrightarrow>
        owner = takeWhile (\<lambda>c. c \<noteq> CHR ''@'') (OwnerID job) \<and> CHR ''@'' \<notin> set owner) \<and>
     (jobFullUsername pm \<longrightarrow> owner = OwnerID job)"
proof -
  assume "Print_call printer path title owner opts \<in> set (fst (snd (processJob L env pm job)))"
  from processJob_prints [OF this]
  have "owner = (if jobFullUsername pm then OwnerID job
                 else takeWhile (\<lambda>c. c \<noteq> CHR ''@'') (OwnerID job))"
    by (simp add: processJob_ownerID_eq)
  moreover have "CHR ''@'' \<notin> set (takeWhile (\<lambda>c. c \<noteq> CHR ''@'') (OwnerID job))"
    by (auto dest: set_takeWhileD)
  ultimately show ?thesis by simp
qed

text \<open>The sample job with both settings of \<^verbatim>\<open>jobFullUsername\<close>.\<close>

theorem processJob_owner_normalized_witness:
  "Print_call ''lp'' ''/tmp/J1.pdf'' (''gcp:J1 '' @ replicate 248 CHR ''t'') ''bob'' []
     \<in> set (fst (snd (processJob sample_lib sample_env sample_manager sample_job))) \<and>
   \<not> jobFullUsername sample_manager \<and> CHR ''@'' \<notin> set ''bob'' \<and>
   Print_call ''lp'' ''/tmp/J1.pdf'' (''gcp:J1 '' @ replicate 248 CHR ''t'') ''bob@example.com'' []
     \<in> set (fst (snd (processJob sample_lib sample_env
                         (sample_manager\<lparr>jobFullUsername := True\<rparr>) sample_job))) \<and>
   ''bob@example.com'' = OwnerID sample_job"
proof -
  have m: "Print_call ''lp'' ''/tmp/J1.pdf'' (''gcp:J1 '' @ replicate 248 CHR ''t'') ''bob'' []
     \<in> set (fst (snd (processJob sample_lib sample_env sample_manager sample_job)))"
    by code_simp
  have m': "Print_call ''lp'' ''/tmp/J1.pdf'' (''gcp:J1 '' @ replicate 248 CHR ''t'')
       ''bob@example.com'' []
     \<in> set (fst (snd (processJob sample_lib sample_env
                         (sample_manager\<lparr>jobFullUsername := True\<rparr>) sample_job)))"
    by code_simp
  have f: "\<not> jobFullUsername sample_manager" by (simp add: sample_manager_def)
  have t: "jobFullUsername (sample_manager\<lparr>jobFullUsername := True\<rparr>)" by simp
  from processJob_owner_normalized [OF m] f have 1: "CHR ''@'' \<notin> set ''bob''" by blast
  from processJob_owner_normalized [OF m'] t have 2: "''bob@example.com'' = OwnerID sample_job"
    by blast
  from m m' f 1 2 show ?thesis by blast
qed

text \<open>
  The four ways out after the temp file exists: the job is followed to completion, the
  download fails, the submission fails, a poll fails. Each time the file is gone.
\<close>

theorem processJob_removes_temp_file_witness:
  "(let r = processJob sample_lib sample_env sample_manager sample_job
    in snd (snd r) \<noteq> Polling \<and> CreateTempFile_call (Inr ''/tmp/J1.pdf'') \<in> set (fst (snd r)) \<and>
       Remove_call ''/tmp/J1.pdf'' \<in> set (fst (snd r)) \<and>
       ''/tmp/J1.pdf'' \<notin> files_after (fst (snd r)) {}) \<and>
   (let r = processJob sample_lib (sample_env\<lparr>Download_result := Some ''timeout''\<rparr>)
              sample_manager sample_job
    in snd (snd r) \<noteq> Polling \<and> CreateTempFile_call (Inr ''/tmp/J1.pdf'') \<in> set (fst (snd r)) \<and>
       ''/tmp/J1.pdf'' \<notin> files_after (fst (snd r)) {}) \<and>
   (let r = processJob sample_lib (sample_env\<lparr>Print_result := Inl ''rejected''\<rparr>)
              sample_manager sample_job
    in snd (snd r) \<noteq> Polling \<and> CreateTempFile_call (Inr ''/tmp/J1.pdf'') \<in> set (fst (snd r)) \<and>
       ''/tmp/J1.pdf'' \<notin> files_after (fst (snd r)) {}) \<and>
   (let r = processJob sample_lib (sample_env\<lparr>GetJobState_results := [Inr (4, 0), Inl ''gone'']\<rparr>)
              sample_manager sample_job
    in snd (snd r) \<noteq> Polling \<and> CreateTempFile_call (Inr ''/tmp/J1.pdf'') \<in> set (fst (snd r)) \<and>
       ''/tmp/J1.pdf'' \<notin> files_after (fst (snd r)) {})"
proof -
  have r: "x = (fst x, fst (snd x), snd (snd x))"
    for x :: "PrinterManager \<times> job_event list \<times> outcome"
    by simp
  let ?r1 = "processJob sample_lib sample_env sample_manager sample_job"
  have o1: "snd (snd ?r1) \<noteq> Polling" by code_simp
  have c1: "CreateTempFile_call (Inr ''/tmp/J1.pdf'') \<in> set (fst (snd ?r1))" by code_simp
  note 1 = processJob_removes_temp_file [OF r o1 c1, of "{}"]
  let ?r2 = "processJob sample_lib (sample_env\<lparr>Download_result := Some ''timeout''\<rparr>)
              sample_manager sample_job"
  have o2: "snd (snd ?r2) \<noteq> Polling" by code_simp
  have c2: "CreateTempFile_call (Inr ''/tmp/J1.pdf'') \<in> set (fst (snd ?r2))" by code_simp
  note 2 = processJob_removes_temp_file [OF r o2 c2, of "{}"]
  let ?r3 = "processJob sample_lib (sample_env\<lparr>Print_result := Inl ''rejected''\<rparr>)
              sample_manager sample_job"
  have o3: "snd (snd ?r3) \<noteq> Polling" by code_simp
  have c3: "CreateTempFile_call (Inr ''/tmp/J1.pdf'') \<in> set (fst (snd ?r3))" by code_simp
  note 3 = processJob_removes_temp_file [OF r o3 c3, of "{}"]
  let ?r4 = "processJob sample_lib
               (sample_env\<lparr>GetJobState_results := [Inr (4, 0), Inl ''gone'']\<rparr>)
               sample_manager sample_job"
  have o4: "snd (snd ?r4) \<noteq> Polling" by code_simp
  have c4: "CreateTempFile_call (Inr ''/tmp/J1.pdf'') \<in> set (fst (snd ?r4))" by code_simp
  note 4 = processJob_removes_temp_file [OF r o4 c4, of "{}"]
  from o1 c1 1 o2 c2 2 o3 c3 3 o4 c4 4 show ?thesis unfolding Let_def by blast
qed

text \<open>
  Claim C3 as stated fails where the failing step is the submission: the pipeline fails
  before the follow phase, and the calls of the processor include the \<^verbatim>\<open>Print\<close> call
  that returned the error.
\<close>

theorem processJob_failure_no_Print_counterexample:
  "\<not> inFlight sample_manager (GCPJobID sample_job) \<and>
   Print_result (sample_env\<lparr>Print_result := Inl ''rejected''\<rparr>) = Inl ''rejected'' \<and>
   snd (snd (processJob sample_lib (sample_env\<lparr>Print_result := Inl ''rejected''\<rparr>)
               sample_manager sample_job)) = Returned \<and>
   filter is_Print
     (fst (snd (processJob sample_lib (sample_env\<lparr>Print_result := Inl ''rejected''\<rparr>)
                  sample_manager sample_job))) =
     [Print_call ''lp'' ''/tmp/J1.pdf'' (''gcp:J1 '' @ replicate 248 CHR ''t'') ''bob'' []]"
proof (intro conjI)
  show "\<not> inFlight sample_manager (GCPJobID sample_job)"
    by (simp add: inFlight_def sample_manager_def)
  show "Print_result (sample_env\<lparr>Print_result := Inl ''rejected''\<rparr>) = Inl ''rejected''"
    by simp
  show "snd (snd (processJob sample_lib (sample_env\<lparr>Print_result := Inl ''rejected''\<rparr>)
               sample_manager sample_job)) = Returned"
    by code_simp
  show "filter is_Print
     (fst (snd (processJob sample_lib (sample_env\<lparr>Print_result := Inl ''rejected''\<rparr>)
                  sample_manager sample_job))) =
     [Print_call ''lp'' ''/tmp/J1.pdf'' (''gcp:J1 '' @ replicate 248 CHR ''t'') ''bob'' []]"
    by code_simp
qed

text \<open>The five failures, each on the sample job.\<close>

theorem processJob_failure_reported_witness:
  "jobsError (fst (processJob sample_lib sample_env sample_manager
                     (sample_job\<lparr>GCPPrinterID := ''P9''\<rparr>))) = 1 \<and>
   filter is_Control (fst (snd (processJob sample_lib sample_env sample_manager
                     (sample_job\<lparr>GCPPrinterID := ''P9''\<rparr>)))) =
     [Control_call ''J1'' GCPJobAborted GCPJobOther 0] \<and>
   filter is_Control
     (fst (snd (processJob sample_lib (sample_env\<lparr>Ticket_result := Inl ''no ticket''\<rparr>)
                  sample_manager sample_job))) =
     [Control_call ''J1'' GCPJobAborted GCPJobInvalidTicket 0] \<and>
   filter is_Control
     (fst (snd (processJob sample_lib (sample_env\<lparr>CreateTempFile_result := Inl ''disk full''\<rparr>)
                  sample_manager sample_job))) =
     [Control_call ''J1'' GCPJobAborted GCPJobOther 0] \<and>
   filter is_Control
     (fst (snd (processJob sample_lib (sample_env\<lparr>Download_result := Some ''timeout''\<rparr>)
                  sample_manager sample_job))) =
     [Control_call ''J1'' GCPJobAborted GCPJobPrintFailure 0] \<and>
   filter is_Print
     (fst (snd (processJob sample_lib (sample_env\<lparr>Download_result := Some ''timeout''\<rparr>)
                  sample_manager sample_job))) = [] \<and>
   filter is_Control
     (fst (snd (processJob sample_lib (sample_env\<lparr>Print_result := Inl ''rejected''\<rparr>)
                  sample_manager sample_job))) =
     [Control_call ''J1'' GCPJobAborted GCPJobPrintFailure 0]"
proof -
  have n: "\<not> inFlight sample_manager (GCPJobID sample_job)"
    "\<not> inFlight sample_manager (GCPJobID (sample_job\<lparr>GCPPrinterID := ''P9''\<rparr>))"
    by (simp_all add: inFlight_def sample_manager_def)
  have g: "Get (gcpPrintersByGCPID sample_manager) (GCPPrinterID sample_job) = Some sample_printer"
    "Get (gcpPrintersByGCPID sample_manager)
       (GCPPrinterID (sample_job\<lparr>GCPPrinterID := ''P9''\<rparr>)) = None"
    by (simp_all add: Get_def sample_manager_def sample_job_def)
  have e: "Ticket_result sample_env = Inr []" "CreateTempFile_result sample_env = Inr ''/tmp/J1.pdf''"
    "Download_result sample_env = None"
    by (simp_all add: sample_env_def)
  have z: "jobsError sample_manager = 0" by (simp add: sample_manager_def)
  have i: "GCPJobID sample_job = ''J1''" by (simp add: sample_job_def)
  have r: "\<And>x. x = (fst x, fst (snd x), snd (snd x))" for x :: "PrinterManager \<times> job_event list \<times> outcome"
    by simp
  note t = processJob_failure_reported
  from t [OF n(2) r, of sample_lib sample_env] g(2) z i
  have 1: "jobsError (fst (processJob sample_lib sample_env sample_manager
                     (sample_job\<lparr>GCPPrinterID := ''P9''\<rparr>))) = 1 \<and>
   filter is_Control (fst (snd (processJob sample_lib sample_env sample_manager
                     (sample_job\<lparr>GCPPrinterID := ''P9''\<rparr>)))) =
     [Control_call ''J1'' GCPJobAborted GCPJobOther 0]"
    by simp
  from t [OF n(1) r, of sample_lib "sample_env\<lparr>Ticket_result := Inl ''no ticket''\<rparr>"
      sample_printer "''no ticket''"] g(1) i
  have 2: "filter is_Control
     (fst (snd (processJob sample_lib (sample_env\<lparr>Ticket_result := Inl ''no ticket''\<rparr>)
                  sample_manager sample_job))) =
     [Control_call ''J1'' GCPJobAborted GCPJobInvalidTicket 0]"
    by simp
  from t [OF n(1) r, of sample_lib "sample_env\<lparr>CreateTempFile_result := Inl ''disk full''\<rparr>"
      sample_printer "''disk full''" "[]"] g(1) i e
  have 3: "filter is_Control
     (fst (snd (processJob sample_lib (sample_env\<lparr>CreateTempFile_result := Inl ''disk full''\<rparr>)
                  sample_manager sample_job))) =
     [Control_call ''J1'' GCPJobAborted GCPJobOther 0]"
    by simp
  from t [OF n(1) r, of sample_lib "sample_env\<lparr>Download_result := Some ''timeout''\<rparr>"
      sample_printer "''timeout''" "[]" "''/tmp/J1.pdf''"] g(1) i e
  have 4: "filter is_Control
     (fst (snd (processJob sample_lib (sample_env\<lparr>Download_result := Some ''timeout''\<rparr>)
                  sample_manager sample_job))) =
     [Control_call ''J1'' GCPJobAborted GCPJobPrintFailure 0] \<and>
   filter is_Print
     (fst (snd (processJob sample_lib (sample_env\<lparr>Download_result := Some ''timeout''\<rparr>)
                  sample_manager sample_job))) = []"
    by simp
  from t [OF n(1) r, of sample_lib "sample_env\<lparr>Print_result := Inl ''rejected''\<rparr>"
      sample_printer "''rejected''" "[]" "''/tmp/J1.pdf''"] g(1) i e
  have 5: "filter is_Control
     (fst (snd (processJob sample_lib (sample_env\<lparr>Print_result := Inl ''rejected''\<rparr>)
                  sample_manager sample_job))) =
     [Control_call ''J1'' GCPJobAborted GCPJobPrintFailure 0]"
    by simp
  from 1 2 3 4 5 show ?thesis by blast
qed

subsection \<open>The follow loop\<close>

text \<open>
  One turn of the loop on a poll that succeeds. A \<^verbatim>\<open>Control\<close> update, with the mapped
  cloud state and cause and the new page count, is emitted if and only if the local
  state or the page count differs from the loop variables, which hold the values of the
  previous poll (before the first poll, the zero values). The exit test reads the cloud
  state variable: the mapped cloud state of the polled local state if the poll differed,
  and what the variable held before if not. The loop leaves when it is not
  \<^verbatim>\<open>InProgress\<close>, incrementing \<^verbatim>\<open>jobsDone\<close> when it is \<^verbatim>\<open>Done\<close> and \<^verbatim>\<open>jobsError\<close> otherwise.
\<close>

lemma followJob_loop_Inr:
  "followJob_loop L job cupsJobID (cupsState, gcpState, pages)
     (Inr (latest, latestPages) # polls) pm =
   (let update =
          (if latest \<noteq> cupsState \<or> latestPages \<noteq> pages
           then [Control_call (GCPJobID job) (fst (GCPJobState_of L latest))
                   (snd (GCPJobState_of L latest)) latestPages]
           else []);
        state =
          (if latest \<noteq> cupsState \<or> latestPages \<noteq> pages
           then fst (GCPJobState_of L latest) else gcpState)
    in if state \<noteq> GCPJobInProgress
       then (incrementJobsProcessed (state = GCPJobDone) pm,
             GetJobState_call cupsJobID # update, Returned)
       else (case followJob_loop L job cupsJobID (latest, state, latestPages) polls pm of
               (pm', evs, out) \<Rightarrow> (pm', GetJobState_call cupsJobID # update @ evs, out)))"
  by (auto simp: followJob_poll_def Let_def split: prod.splits)

text \<open>
  A poll that fails emits \<^verbatim>\<open>Aborted\<close> with cause \<^verbatim>\<open>Other\<close> and the last known page count,
  increments the error counter and leaves the loop.
\<close>

lemma followJob_loop_Inl:
  "followJob_loop L job cupsJobID (cupsState, gcpState, pages) (Inl err # polls) pm =
     (incrementJobsProcessed False pm,
      [GetJobState_call cupsJobID,
       Control_call (GCPJobID job) GCPJobAborted GCPJobOther pages],
      Returned)"
  by (simp add: followJob_poll_def)

text \<open>
  While every poll answers the zero local state with zero pages, the cloud state variable
  still holds the zero value of \<^verbatim>\<open>lib.GCPJobState\<close>, so what the loop does then depends
  on the declarations of \<^verbatim>\<open>lib\<close>. With the sample declarations it leaves at the first
  such poll; with \<^verbatim>\<open>InProgress\<close> as the zero cloud state it goes on to the next poll.
\<close>

lemma followJob_first_poll_zero:
  "snd (followJob sample_lib (sample_env\<lparr>GetJobState_results := [Inr (0, 0), Inr (6, 7)]\<rparr>)
          sample_manager sample_job 7) = ([GetJobState_call 7], Returned)"
  "snd (followJob (sample_lib\<lparr>GCPJobState_zero := GCPJobInProgress\<rparr>)
          (sample_env\<lparr>GetJobState_results := [Inr (0, 0), Inr (6, 7)]\<rparr>)
          sample_manager sample_job 7) =
     ([GetJobState_call 7, GetJobState_call 7,
       Control_call ''J1'' GCPJobDone (GCPJobStateCause_value 0) 7], Returned)"
  by (simp_all add: sample_lib_def followJob_def followJob_poll_def sample_job_def)

section \<open>Properties of the reconciliation\<close>

lemma sent_append: "sent (xs @ ys) = sent xs @ sent ys"
  by (induction xs rule: sent.induct) simp_all

lemma sent_applyDiff:
  "sent (applyDiff env pm diff) =
     [case Operation diff of
        RegisterPrinter \<Rightarrow>
          (case GetPPD env (Name (Printer diff)) of
             Inl err \<Rightarrow> Printer_zero
           | Inr ppd \<Rightarrow>
               (case Register env (Printer diff) ppd of
                  (Some err, printer) \<Rightarrow> Printer_zero
                | (None, printer) \<Rightarrow>
                    printer\<lparr>CUPSJobSemaphore := NewSemaphore (cupsQueueSize pm)\<rparr>))
      | UpdatePrinter \<Rightarrow> Printer (snd (Update env diff))
      | DeletePrinter \<Rightarrow> Printer_zero
      | NoChangeToPrinter \<Rightarrow> Printer diff
      | Operation_other n \<Rightarrow> Printer_zero]"
  by (auto simp: applyDiff_def sent_append split: Operation.splits sum.splits option.splits
      prod.splits)

lemma length_concat_sent:
  "length (concat (map (\<lambda>diff. sent (applyDiff env pm diff)) diffs)) = length diffs"
  by (induction diffs) (simp_all add: sent_applyDiff)

lemma arrival_length:
  "arrival_of env pm diffs arrival \<Longrightarrow> length arrival = length diffs"
proof -
  assume "arrival_of env pm diffs arrival"
  then have "size (mset arrival) =
      size (mset (concat (map (\<lambda>diff. sent (applyDiff env pm diff)) diffs)))"
    by (simp add: arrival_of_def)
  then show ?thesis by (simp add: length_concat_sent)
qed

text \<open>
  Claim C10. \<^verbatim>\<open>applyDiff\<close> sends exactly one value on the channel: the printer of an
  unchanged diff, the printer of an update diff as \<^verbatim>\<open>gcp.Update\<close> leaves it, the
  registered printer with a fresh semaphore when the PPD is found and the registration
  succeeds, and the empty printer for a register diff whose PPD or registration fails,
  for every delete diff, failed or not, and for an operation that is none of the four.
  So in a round with diffs the values that arrive are one per diff, in some order; the
  collection loop of \<^verbatim>\<open>syncPrinters\<close> receives all of them, and the round ends with
  \<^verbatim>\<open>Refresh\<close> called on the arrived printers that have a name.
\<close>

theorem applyDiff_sends_once:
  "length (sent (applyDiff env pm diff)) = 1 \<and>
   (Operation diff = NoChangeToPrinter \<longrightarrow> sent (applyDiff env pm diff) = [Printer diff]) \<and>
   (Operation diff = UpdatePrinter \<longrightarrow>
      sent (applyDiff env pm diff) = [Printer (snd (Update env diff))]) \<and>
   (Operation diff = DeletePrinter \<longrightarrow> sent (applyDiff env pm diff) = [Printer_zero]) \<and>
   (Operation diff = RegisterPrinter \<longrightarrow>
      (\<forall>err. GetPPD env (Name (Printer diff)) = Inl err \<longrightarrow>
         sent (applyDiff env pm diff) = [Printer_zero]) \<and>
      (\<forall>ppd. GetPPD env (Name (Printer diff)) = Inr ppd \<longrightarrow>
         sent (applyDiff env pm diff) =
           [if fst (Register env (Printer diff) ppd) = None
            then (snd (Register env (Printer diff) ppd))
                   \<lparr>CUPSJobSemaphore := NewSemaphore (cupsQueueSize pm)\<rparr>
            else Printer_zero])) \<and>
   (\<forall>n. Operation diff = Operation_other n \<longrightarrow> sent (applyDiff env pm diff) = [Printer_zero]) \<and>
   (syncPrinters_diffs env pm = Inr (Some diffs) \<and> arrival_of env pm diffs arrival \<longrightarrow>
      (\<exists>vals. length vals = length diffs \<and>
         (\<forall>i<length diffs. sent (applyDiff env pm (diffs ! i)) = [vals ! i]) \<and>
         mset arrival = mset vals) \<and>
      length arrival = length diffs \<and>
      syncPrinters env arrival pm =
        (Refreshed (filter (\<lambda>p. Name p \<noteq> []) arrival),
         pm\<lparr>gcpPrintersByGCPID := Refresh (filter (\<lambda>p. Name p \<noteq> []) arrival)\<rparr>))"
proof -
  have 1: "length (sent (applyDiff env pm diff)) = 1"
    by (simp add: sent_applyDiff)
  have 2: "Operation diff = NoChangeToPrinter \<longrightarrow> sent (applyDiff env pm diff) = [Printer diff]"
    by (simp add: sent_applyDiff)
  have 3: "Operation diff = UpdatePrinter \<longrightarrow>
      sent (applyDiff env pm diff) = [Printer (snd (Update env diff))]"
    by (simp add: sent_applyDiff)
  have 4: "Operation diff = DeletePrinter \<longrightarrow> sent (applyDiff env pm diff) = [Printer_zero]"
    by (simp add: sent_applyDiff)
  have 5: "Operation diff = RegisterPrinter \<longrightarrow>
      (\<forall>err. GetPPD env (Name (Printer diff)) = Inl err \<longrightarrow>
         sent (applyDiff env pm diff) = [Printer_zero]) \<and>
      (\<forall>ppd. GetPPD env (Name (Printer diff)) = Inr ppd \<longrightarrow>
         sent (applyDiff env pm diff) =
           [if fst (Register env (Printer diff) ppd) = None
            then (snd (Register env (Printer diff) ppd))
                   \<lparr>CUPSJobSemaphore := NewSemaphore (cupsQueueSize pm)\<rparr>
            else Printer_zero])"
    by (auto simp: sent_applyDiff split: prod.splits option.splits)
  have 6: "\<forall>n. Operation diff = Operation_other n \<longrightarrow>
      sent (applyDiff env pm diff) = [Printer_zero]"
    by (simp add: sent_applyDiff)
  have 7: "syncPrinters_diffs env pm = Inr (Some diffs) \<and> arrival_of env pm diffs arrival \<longrightarrow>
      (\<exists>vals. length vals = length diffs \<and>
         (\<forall>i<length diffs. sent (applyDiff env pm (diffs ! i)) = [vals ! i]) \<and>
         mset arrival = mset vals) \<and>
      length arrival = length diffs \<and>
      syncPrinters env arrival pm =
        (Refreshed (filter (\<lambda>p. Name p \<noteq> []) arrival),
         pm\<lparr>gcpPrintersByGCPID := Refresh (filter (\<lambda>p. Name p \<noteq> []) arrival)\<rparr>)"
  proof (intro impI, elim conjE)
    assume d: "syncPrinters_diffs env pm = Inr (Some diffs)"
      and a: "arrival_of env pm diffs arrival"
    let ?one = "\<lambda>diff. hd (sent (applyDiff env pm diff))"
    have single: "sent (applyDiff env pm x) = [?one x]" for x
      by (simp add: sent_applyDiff)
    have "concat (map (\<lambda>diff. sent (applyDiff env pm diff)) diffs) = map ?one diffs"
      by (induction diffs) (simp_all add: sent_applyDiff)
    with a have m: "mset arrival = mset (map ?one diffs)" by (simp add: arrival_of_def)
    have e: "\<forall>i<length diffs. sent (applyDiff env pm (diffs ! i)) = [map ?one diffs ! i]"
      using single by simp
    from a have len: "length arrival = length diffs" by (rule arrival_length)
    with d have run: "syncPrinters env arrival pm =
        (Refreshed (filter (\<lambda>p. Name p \<noteq> []) arrival),
         pm\<lparr>gcpPrintersByGCPID := Refresh (filter (\<lambda>p. Name p \<noteq> []) arrival)\<rparr>)"
      by (simp add: syncPrinters_def Let_def)
    have "\<exists>vals. length vals = length diffs \<and>
         (\<forall>i<length diffs. sent (applyDiff env pm (diffs ! i)) = [vals ! i]) \<and>
         mset arrival = mset vals"
      using m e by (intro exI [of _ "map ?one diffs"]) simp
    with len run show "(\<exists>vals. length vals = length diffs \<and>
         (\<forall>i<length diffs. sent (applyDiff env pm (diffs ! i)) = [vals ! i]) \<and>
         mset arrival = mset vals) \<and>
      length arrival = length diffs \<and>
      syncPrinters env arrival pm =
        (Refreshed (filter (\<lambda>p. Name p \<noteq> []) arrival),
         pm\<lparr>gcpPrintersByGCPID := Refresh (filter (\<lambda>p. Name p \<noteq> []) arrival)\<rparr>)"
      by blast
  qed
  from 1 2 3 4 5 6 7 show ?thesis by blast
qed

lemma sample_sync_diffs:
  "syncPrinters_diffs sample_sync_env sample_manager = Inr (Some sample_diffs)"
  by (simp add: syncPrinters_diffs_def sample_sync_env_def)

lemma sample_sent:
  "concat (map (\<lambda>diff. sent (applyDiff sample_sync_env sample_manager diff)) sample_diffs) =
     [sample_printer,
      \<lparr>Name = ''laser'', GCPID = ''P2'', XMPPPingInterval = 0,
       CUPSJobSemaphore = NewSemaphore 2\<rparr>,
      Printer_zero, Printer_zero]"
  by (simp add: sent_applyDiff sample_diffs_def sample_sync_env_def sample_manager_def)

lemma sample_arrival_of:
  "arrival_of sample_sync_env sample_manager sample_diffs sample_arrival"
  unfolding arrival_of_def sample_sent by (simp add: sample_arrival_def)

text \<open>
  The sample round: four diffs, four values, of which \<^verbatim>\<open>Refresh\<close> receives the two with
  a name; and the value sent for each sample diff and for an unchanged printer.
\<close>

theorem applyDiff_sends_once_witness:
  "syncPrinters_diffs sample_sync_env sample_manager = Inr (Some sample_diffs) \<and>
   arrival_of sample_sync_env sample_manager sample_diffs sample_arrival \<and>
   length sample_arrival = length sample_diffs \<and>
   fst (syncPrinters sample_sync_env sample_arrival sample_manager) =
     Refreshed [\<lparr>Name = ''laser'', GCPID = ''P2'', XMPPPingInterval = 0,
                 CUPSJobSemaphore = NewSemaphore 2\<rparr>, sample_printer] \<and>
   sent (applyDiff sample_sync_env sample_manager (sample_diffs ! 0)) = [sample_printer] \<and>
   sent (applyDiff sample_sync_env sample_manager (sample_diffs ! 1)) =
     [\<lparr>Name = ''laser'', GCPID = ''P2'', XMPPPingInterval = 0,
       CUPSJobSemaphore = NewSemaphore 2\<rparr>] \<and>
   sent (applyDiff sample_sync_env sample_manager (sample_diffs ! 2)) = [Printer_zero] \<and>
   sent (applyDiff sample_sync_env sample_manager (sample_diffs ! 3)) = [Printer_zero] \<and>
   sent (applyDiff sample_sync_env sample_manager
           \<lparr>Operation = NoChangeToPrinter, Printer = sample_printer\<rparr>) = [sample_printer]"
proof -
  note t = applyDiff_sends_once [where env = sample_sync_env and pm = sample_manager]
  have f: "filter (\<lambda>p. Name p \<noteq> []) sample_arrival =
      [\<lparr>Name = ''laser'', GCPID = ''P2'', XMPPPingInterval = 0,
        CUPSJobSemaphore = NewSemaphore 2\<rparr>, sample_printer]"
    by (simp add: sample_arrival_def Printer_zero_def sample_printer_def)
  from t [of "sample_diffs ! 0" sample_diffs sample_arrival] sample_sync_diffs sample_arrival_of
  have r: "length sample_arrival = length sample_diffs \<and>
      syncPrinters sample_sync_env sample_arrival sample_manager =
        (Refreshed (filter (\<lambda>p. Name p \<noteq> []) sample_arrival),
         sample_manager\<lparr>gcpPrintersByGCPID :=
           Refresh (filter (\<lambda>p. Name p \<noteq> []) sample_arrival)\<rparr>)"
    by blast
  then have 0: "length sample_arrival = length sample_diffs"
    "fst (syncPrinters sample_sync_env sample_arrival sample_manager) =
       Refreshed [\<lparr>Name = ''laser'', GCPID = ''P2'', XMPPPingInterval = 0,
                   CUPSJobSemaphore = NewSemaphore 2\<rparr>, sample_printer]"
    by (simp_all add: f)
  have 1: "sent (applyDiff sample_sync_env sample_manager (sample_diffs ! 0)) = [sample_printer]"
    using t [of "sample_diffs ! 0"] by (simp add: sample_diffs_def sample_sync_env_def)
  have 2: "sent (applyDiff sample_sync_env sample_manager (sample_diffs ! 1)) =
     [\<lparr>Name = ''laser'', GCPID = ''P2'', XMPPPingInterval = 0,
       CUPSJobSemaphore = NewSemaphore 2\<rparr>]"
    using t [of "sample_diffs ! 1"]
    by (simp add: sample_diffs_def sample_sync_env_def sample_manager_def)
  have 3: "sent (applyDiff sample_sync_env sample_manager (sample_diffs ! 2)) = [Printer_zero]"
    using t [of "sample_diffs ! 2"] by (simp add: sample_diffs_def sample_sync_env_def)
  have 4: "sent (applyDiff sample_sync_env sample_manager (sample_diffs ! 3)) = [Printer_zero]"
    using t [of "sample_diffs ! 3"] by (simp add: sample_diffs_def)
  have 5: "sent (applyDiff sample_sync_env sample_manager
           \<lparr>Operation = NoChangeToPrinter, Printer = sample_printer\<rparr>) = [sample_printer]"
    using t [of "\<lparr>Operation = NoChangeToPrinter, Printer = sample_printer\<rparr>"] by simp
  from sample_sync_diffs sample_arrival_of 0 1 2 3 4 5 show ?thesis by blast
qed

text \<open>
  Claim C5, amended. In a round with diffs, whatever the order of arrival, \<^verbatim>\<open>Refresh\<close>
  is called, with the printers that the workers of all diffs sent and that have a
  non-empty name. A register diff whose PPD or registration fails and a delete diff
  whose deletion fails log an error and send the empty printer, which is left out of
  the collection. An update diff whose update fails logs an error and still sends its
  printer, which is part of the collection.
\<close>

theorem syncPrinters_failures:
  assumes diffs: "syncPrinters_diffs env pm = Inr (Some diffs)"
    and arrival: "arrival_of env pm diffs arrival"
  shows "\<exists>currentPrinters.
      syncPrinters env arrival pm =
        (Refreshed currentPrinters, pm\<lparr>gcpPrintersByGCPID := Refresh currentPrinters\<rparr>) \<and>
      mset currentPrinters =
        mset (filter (\<lambda>p. Name p \<noteq> [])
                (concat (map (\<lambda>diff. sent (applyDiff env pm diff)) diffs))) \<and>
      (\<forall>diff \<in> set diffs.
         (Operation diff = RegisterPrinter \<and>
            (\<forall>ppd. GetPPD env (Name (Printer diff)) = Inr ppd \<longrightarrow>
               fst (Register env (Printer diff) ppd) \<noteq> None) \<longrightarrow>
          sent (applyDiff env pm diff) = [Printer_zero] \<and>
          (\<exists>ev \<in> set (applyDiff env pm diff). is_Errorf ev)) \<and>
         (Operation diff = DeletePrinter \<and> Delete env (GCPID (Printer diff)) \<noteq> None \<longrightarrow>
          sent (applyDiff env pm diff) = [Printer_zero] \<and>
          (\<exists>ev \<in> set (applyDiff env pm diff). is_Errorf ev)) \<and>
         (Operation diff = UpdatePrinter \<and> fst (Update env diff) \<noteq> None \<longrightarrow>
          sent (applyDiff env pm diff) = [Printer (snd (Update env diff))] \<and>
          (\<exists>ev \<in> set (applyDiff env pm diff). is_Errorf ev)))"
proof -
  let ?keep = "\<lambda>p. Name p \<noteq> []"
  let ?current = "filter ?keep (take (length diffs) arrival)"
  from arrival have len: "length arrival = length diffs" by (rule arrival_length)
  with diffs have run: "syncPrinters env arrival pm =
      (Refreshed ?current, pm\<lparr>gcpPrintersByGCPID := Refresh ?current\<rparr>)"
    by (simp add: syncPrinters_def Let_def)
  from len have "mset ?current = filter_mset ?keep (mset arrival)" by simp
  also from arrival have "\<dots> = mset (filter ?keep
      (concat (map (\<lambda>diff. sent (applyDiff env pm diff)) diffs)))"
    by (simp add: arrival_of_def)
  finally have coll: "mset ?current = mset (filter ?keep
      (concat (map (\<lambda>diff. sent (applyDiff env pm diff)) diffs)))" .
  have each: "\<forall>diff \<in> set diffs.
         (Operation diff = RegisterPrinter \<and>
            (\<forall>ppd. GetPPD env (Name (Printer diff)) = Inr ppd \<longrightarrow>
               fst (Register env (Printer diff) ppd) \<noteq> None) \<longrightarrow>
          sent (applyDiff env pm diff) = [Printer_zero] \<and>
          (\<exists>ev \<in> set (applyDiff env pm diff). is_Errorf ev)) \<and>
         (Operation diff = DeletePrinter \<and> Delete env (GCPID (Printer diff)) \<noteq> None \<longrightarrow>
          sent (applyDiff env pm diff) = [Printer_zero] \<and>
          (\<exists>ev \<in> set (applyDiff env pm diff). is_Errorf ev)) \<and>
         (Operation diff = UpdatePrinter \<and> fst (Update env diff) \<noteq> None \<longrightarrow>
          sent (applyDiff env pm diff) = [Printer (snd (Update env diff))] \<and>
          (\<exists>ev \<in> set (applyDiff env pm diff). is_Errorf ev))"
  proof
    fix diff
    assume "diff \<in> set diffs"
    have r: "Operation diff = RegisterPrinter \<and>
            (\<forall>ppd. GetPPD env (Name (Printer diff)) = Inr ppd \<longrightarrow>
               fst (Register env (Printer diff) ppd) \<noteq> None) \<longrightarrow>
          sent (applyDiff env pm diff) = [Printer_zero] \<and>
          (\<exists>ev \<in> set (applyDiff env pm diff). is_Errorf ev)"
    proof (intro impI, elim conjE)
      assume op: "Operation diff = RegisterPrinter"
        and fails: "\<forall>ppd. GetPPD env (Name (Printer diff)) = Inr ppd \<longrightarrow>
               fst (Register env (Printer diff) ppd) \<noteq> None"
      show "sent (applyDiff env pm diff) = [Printer_zero] \<and>
          (\<exists>ev \<in> set (applyDiff env pm diff). is_Errorf ev)"
      proof (cases "GetPPD env (Name (Printer diff))")
        case (Inl err)
        with op show ?thesis by (simp add: applyDiff_def)
      next
        case (Inr ppd)
        with fails obtain err printer where "Register env (Printer diff) ppd = (Some err, printer)"
          by (cases "Register env (Printer diff) ppd") auto
        with op Inr show ?thesis by (simp add: applyDiff_def)
      qed
    qed
    have d: "Operation diff = DeletePrinter \<and> Delete env (GCPID (Printer diff)) \<noteq> None \<longrightarrow>
          sent (applyDiff env pm diff) = [Printer_zero] \<and>
          (\<exists>ev \<in> set (applyDiff env pm diff). is_Errorf ev)"
      by (auto simp: applyDiff_def split: option.splits)
    have u: "Operation diff = UpdatePrinter \<and> fst (Update env diff) \<noteq> None \<longrightarrow>
          sent (applyDiff env pm diff) = [Printer (snd (Update env diff))] \<and>
          (\<exists>ev \<in> set (applyDiff env pm diff). is_Errorf ev)"
    proof (intro impI, elim conjE)
      assume op: "Operation diff = UpdatePrinter" and fails: "fst (Update env diff) \<noteq> None"
      then obtain err diff' where "Update env diff = (Some err, diff')"
        by (cases "Update env diff") auto
      with op show "sent (applyDiff env pm diff) = [Printer (snd (Update env diff))] \<and>
          (\<exists>ev \<in> set (applyDiff env pm diff). is_Errorf ev)"
        by (simp add: applyDiff_def)
    qed
    from r d u show "(Operation diff = RegisterPrinter \<and>
            (\<forall>ppd. GetPPD env (Name (Printer diff)) = Inr ppd \<longrightarrow>
               fst (Register env (Printer diff) ppd) \<noteq> None) \<longrightarrow>
          sent (applyDiff env pm diff) = [Printer_zero] \<and>
          (\<exists>ev \<in> set (applyDiff env pm diff). is_Errorf ev)) \<and>
         (Operation diff = DeletePrinter \<and> Delete env (GCPID (Printer diff)) \<noteq> None \<longrightarrow>
          sent (applyDiff env pm diff) = [Printer_zero] \<and>
          (\<exists>ev \<in> set (applyDiff env pm diff). is_Errorf ev)) \<and>
         (Operation diff = UpdatePrinter \<and> fst (Update env diff) \<noteq> None \<longrightarrow>
          sent (applyDiff env pm diff) = [Printer (snd (Update env diff))] \<and>
          (\<exists>ev \<in> set (applyDiff env pm diff). is_Errorf ev))"
      by blast
  qed
  from run coll each show ?thesis by blast
qed

text \<open>
  Claim C5 as stated fails for an update: in the sample round the update of the
  sample printer fails and is logged, and the sample printer is in the collection
  passed to \<^verbatim>\<open>Refresh\<close>.
\<close>

theorem syncPrinters_failed_update_counterexample:
  "syncPrinters_diffs sample_sync_env sample_manager = Inr (Some sample_diffs) \<and>
   Operation (hd sample_diffs) = UpdatePrinter \<and> Printer (hd sample_diffs) = sample_printer \<and>
   Update sample_sync_env (hd sample_diffs) = (Some ''conflict'', hd sample_diffs) \<and>
   Errorf ''Failed to update a printer: conflict''
     \<in> set (applyDiff sample_sync_env sample_manager (hd sample_diffs)) \<and>
   arrival_of sample_sync_env sample_manager sample_diffs sample_arrival \<and>
   fst (syncPrinters sample_sync_env sample_arrival sample_manager) =
     Refreshed [\<lparr>Name = ''laser'', GCPID = ''P2'', XMPPPingInterval = 0,
                 CUPSJobSemaphore = NewSemaphore 2\<rparr>, sample_printer]"
proof (intro conjI)
  show "syncPrinters_diffs sample_sync_env sample_manager = Inr (Some sample_diffs)"
    by (rule sample_sync_diffs)
  show "Operation (hd sample_diffs) = UpdatePrinter" by (simp add: sample_diffs_def)
  show "Printer (hd sample_diffs) = sample_printer" by (simp add: sample_diffs_def)
  show "Update sample_sync_env (hd sample_diffs) = (Some ''conflict'', hd sample_diffs)"
    by (simp add: sample_sync_env_def)
  show "Errorf ''Failed to update a printer: conflict''
     \<in> set (applyDiff sample_sync_env sample_manager (hd sample_diffs))"
    by (simp add: applyDiff_def sample_diffs_def sample_sync_env_def)
  show "arrival_of sample_sync_env sample_manager sample_diffs sample_arrival"
    by (rule sample_arrival_of)
  show "fst (syncPrinters sample_sync_env sample_arrival sample_manager) =
     Refreshed [\<lparr>Name = ''laser'', GCPID = ''P2'', XMPPPingInterval = 0,
                 CUPSJobSemaphore = NewSemaphore 2\<rparr>, sample_printer]"
    by (simp add: syncPrinters_def sample_sync_diffs sample_arrival_def sample_diffs_def
        Printer_zero_def sample_printer_def Let_def)
qed

text \<open>The sample round: a failed update, a failed register and a failed delete.\<close>

theorem syncPrinters_failures_witness:
  "syncPrinters_diffs sample_sync_env sample_manager = Inr (Some sample_diffs) \<and>
   arrival_of sample_sync_env sample_manager sample_diffs sample_arrival \<and>
   (\<exists>currentPrinters.
      fst (syncPrinters sample_sync_env sample_arrival sample_manager) =
        Refreshed currentPrinters \<and>
      mset currentPrinters =
        mset [sample_printer,
              \<lparr>Name = ''laser'', GCPID = ''P2'', XMPPPingInterval = 0,
               CUPSJobSemaphore = NewSemaphore 2\<rparr>]) \<and>
   sent (applyDiff sample_sync_env sample_manager (sample_diffs ! 2)) = [Printer_zero] \<and>
   sent (applyDiff sample_sync_env sample_manager (sample_diffs ! 3)) = [Printer_zero] \<and>
   sent (applyDiff sample_sync_env sample_manager (sample_diffs ! 0)) = [sample_printer]"
proof -
  note t = syncPrinters_failures [OF sample_sync_diffs sample_arrival_of]
  have f: "filter (\<lambda>p. Name p \<noteq> [])
      (concat (map (\<lambda>diff. sent (applyDiff sample_sync_env sample_manager diff)) sample_diffs)) =
     [sample_printer,
      \<lparr>Name = ''laser'', GCPID = ''P2'', XMPPPingInterval = 0,
       CUPSJobSemaphore = NewSemaphore 2\<rparr>]"
    unfolding sample_sent by (simp add: Printer_zero_def sample_printer_def)
  from t obtain currentPrinters where c:
    "syncPrinters sample_sync_env sample_arrival sample_manager =
        (Refreshed currentPrinters,
         sample_manager\<lparr>gcpPrintersByGCPID := Refresh currentPrinters\<rparr>)"
    "mset currentPrinters = mset [sample_printer,
              \<lparr>Name = ''laser'', GCPID = ''P2'', XMPPPingInterval = 0,
               CUPSJobSemaphore = NewSemaphore 2\<rparr>]"
    and each: "\<forall>diff \<in> set sample_diffs.
         (Operation diff = RegisterPrinter \<and>
            (\<forall>ppd. GetPPD sample_sync_env (Name (Printer diff)) = Inr ppd \<longrightarrow>
               fst (Register sample_sync_env (Printer diff) ppd) \<noteq> None) \<longrightarrow>
          sent (applyDiff sample_sync_env sample_manager diff) = [Printer_zero] \<and>
          (\<exists>ev \<in> set (applyDiff sample_sync_env sample_manager diff). is_Errorf ev)) \<and>
         (Operation diff = DeletePrinter \<and>
            Delete sample_sync_env (GCPID (Printer diff)) \<noteq> None \<longrightarrow>
          sent (applyDiff sample_sync_env sample_manager diff) = [Printer_zero] \<and>
          (\<exists>ev \<in> set (applyDiff sample_sync_env sample_manager diff). is_Errorf ev)) \<and>
         (Operation diff = UpdatePrinter \<and> fst (Update sample_sync_env diff) \<noteq> None \<longrightarrow>
          sent (applyDiff sample_sync_env sample_manager diff) =
            [Printer (snd (Update sample_sync_env diff))] \<and>
          (\<exists>ev \<in> set (applyDiff sample_sync_env sample_manager diff). is_Errorf ev))"
    unfolding f by blast
  have m: "sample_diffs ! 0 \<in> set sample_diffs" "sample_diffs ! 2 \<in> set sample_diffs"
    "sample_diffs ! 3 \<in> set sample_diffs"
    by (simp_all add: sample_diffs_def)
  have 2: "sent (applyDiff sample_sync_env sample_manager (sample_diffs ! 2)) = [Printer_zero]"
    using each [rule_format, OF m(2)] by (simp add: sample_diffs_def sample_sync_env_def)
  have 3: "sent (applyDiff sample_sync_env sample_manager (sample_diffs ! 3)) = [Printer_zero]"
    using each [rule_format, OF m(3)] by (simp add: sample_diffs_def sample_sync_env_def)
  have 0: "sent (applyDiff sample_sync_env sample_manager (sample_diffs ! 0)) = [sample_printer]"
    using each [rule_format, OF m(1)] by (simp add: sample_diffs_def sample_sync_env_def)
  from c have "fst (syncPrinters sample_sync_env sample_arrival sample_manager) =
        Refreshed currentPrinters" by simp
  with c(2) sample_sync_diffs sample_arrival_of 0 2 3 show ?thesis by blast
qed

section \<open>Properties of the loop and of the constructor\<close>

lemma syncPrintersPeriodically_loop_Quit:
  "filter is_round_or_update (snd (syncPrintersPeriodically_loop pm (Quit_received # events))) =
   filter is_round_or_update (snd (syncPrintersPeriodically_loop pm events))"
  by (simp split: prod.splits)

text \<open>
  Claim C2 does not hold of the code: after the loop has acknowledged a quit event, a
  timer event still runs a reconciliation round and a printer update still sets the
  printer's ping interval.
\<close>

theorem syncPrintersPeriodically_after_quit:
  "snd (syncPrintersPeriodically_loop sample_manager
          [Quit_received, Timer_fired sample_sync_env sample_arrival,
           Printer_updated ''P1'' (Inr sample_printer) None]) =
     [Quit_acknowledged,
      SyncPrinters_call
        (Refreshed [\<lparr>Name = ''laser'', GCPID = ''P2'', XMPPPingInterval = 0,
                     CUPSJobSemaphore = NewSemaphore 2\<rparr>, sample_printer]),
      Timer_Reset,
      Printer_call ''P1'', SetPrinterXMPPPingInterval_call sample_printer,
      Interval_change_logged sample_printer]"
proof -
  have "syncPrinters sample_sync_env sample_arrival sample_manager =
      (Refreshed [\<lparr>Name = ''laser'', GCPID = ''P2'', XMPPPingInterval = 0,
                   CUPSJobSemaphore = NewSemaphore 2\<rparr>, sample_printer],
       sample_manager\<lparr>gcpPrintersByGCPID :=
         Refresh [\<lparr>Name = ''laser'', GCPID = ''P2'', XMPPPingInterval = 0,
                   CUPSJobSemaphore = NewSemaphore 2\<rparr>, sample_printer]\<rparr>)"
    by (simp add: syncPrinters_def syncPrinters_diffs_def sample_sync_env_def sample_arrival_def
        sample_diffs_def Printer_zero_def sample_printer_def Let_def)
  then show ?thesis by simp
qed

lemma sint_MaxInt64: "sint MaxInt64 = 2 ^ 63 - 1"
  by (simp add: MaxInt64_def)


lemma Min_insert_insert:
  "finite S \<Longrightarrow> Min (insert (a::int) (insert b S)) = Min (insert (min b a) S)"
  by (cases "S = {}") (simp_all add: min.assoc min.commute)

lemma fold_min_interval:
  "sint (fold (\<lambda>p c. if word_sless (XMPPPingInterval p) c then XMPPPingInterval p else c) ps c0) =
     Min (insert (sint c0) (sint ` XMPPPingInterval ` set ps))"
proof (induction ps arbitrary: c0)
  case Nil
  then show ?case by simp
next
  case (Cons p ps)
  let ?c = "if word_sless (XMPPPingInterval p) c0 then XMPPPingInterval p else c0"
  have c: "sint ?c = min (sint (XMPPPingInterval p)) (sint c0)"
    by (simp add: word_sless_alt min_def)
  have "sint (fold (\<lambda>p c. if word_sless (XMPPPingInterval p) c then XMPPPingInterval p else c)
                (p # ps) c0) =
        Min (insert (sint ?c) (sint ` XMPPPingInterval ` set ps))"
    using Cons.IH [of ?c] by simp
  also have "\<dots> = Min (insert (sint c0) (insert (sint (XMPPPingInterval p))
                        (sint ` XMPPPingInterval ` set ps)))"
    unfolding c by (rule Min_insert_insert [symmetric]) simp
  finally show ?case by simp
qed

lemma connectorXMPPPingInterval_Min:
  "sint (connectorXMPPPingInterval ps) =
     Min (insert (2 ^ 63 - 1) (sint ` XMPPPingInterval ` set ps))"
  unfolding connectorXMPPPingInterval_def fold_min_interval sint_MaxInt64 ..

lemma connectorXMPPPingInterval_order:
  "set ps = set qs \<Longrightarrow> connectorXMPPPingInterval ps = connectorXMPPPingInterval qs"
proof -
  assume "set ps = set qs"
  then have "sint (connectorXMPPPingInterval ps) = sint (connectorXMPPPingInterval qs)"
    by (simp add: connectorXMPPPingInterval_Min)
  then show ?thesis by (rule signed_word_eqI)
qed







end
